theory Spec2Isabelle
  imports Complex_Main
begin

section \<open>Python values shared by the services\<close>

text \<open>
  Exceptions are values. Only the class of an exception is kept, since the handlers of
  \<^verbatim>\<open>app.py\<close> and \<^verbatim>\<open>sample.py\<close> branch on the class and copy the text into the
  response body without reading it.
\<close>

datatype pyerror =
    ValueError | KeyError | TypeError | AttributeError | IndexError | OverflowError
  | NotFittedError | HTTPError | LibraryError

text \<open>
  A parsed JSON value. An object is the dictionary that the parser returns, as its list
  of entries: the keys are distinct and a lookup is \<open>map_of\<close>. \<open>JReal r\<close> is a
  number written with a fraction or an exponent, by its exact value \<open>r\<close>: the float
  that Python makes of it is \<open>r\<close> rounded, which is an infinity when \<open>r\<close> is too large
  for a float (\<open>overflow\<close> below; the literals \<^verbatim>\<open>Infinity\<close> and \<^verbatim>\<open>-Infinity\<close> are such
  numbers). \<open>JNaN\<close> is the literal \<^verbatim>\<open>NaN\<close>, which Python's parser accepts. An
  integer of more than 4300 digits is no parsed value: the parser refuses it, and the
  body of the request is then the exception.
\<close>

datatype json =
    JNull | JBool bool | JInt int | JReal real | JNaN | JStr string
  | JArr "json list" | JObj "(string \<times> json) list"

definition is_object :: "json \<Rightarrow> bool" where
  "is_object j = (case j of JObj kvs \<Rightarrow> True | _ \<Rightarrow> False)"

text \<open>Python's truth value of a parsed JSON value (\<^verbatim>\<open>if not data\<close>).\<close>

definition truthy :: "json \<Rightarrow> bool" where
  "truthy j =
     (case j of
        JNull \<Rightarrow> False
      | JBool b \<Rightarrow> b
      | JInt n \<Rightarrow> n \<noteq> 0
      | JReal r \<Rightarrow> r \<noteq> 0
      | JNaN \<Rightarrow> True
      | JStr s \<Rightarrow> s \<noteq> []
      | JArr xs \<Rightarrow> xs \<noteq> []
      | JObj kvs \<Rightarrow> kvs \<noteq> [])"

text \<open>\<^verbatim>\<open>d.get(key, default)\<close>: only a dictionary has the method.\<close>

definition dict_get :: "json \<Rightarrow> string \<Rightarrow> json \<Rightarrow> pyerror + json" where
  "dict_get d key dflt =
     (case d of
        JObj kvs \<Rightarrow> Inr (case map_of kvs key of None \<Rightarrow> dflt | Some v \<Rightarrow> v)
      | _ \<Rightarrow> Inl AttributeError)"

definition py_len :: "json \<Rightarrow> pyerror + nat" where
  "py_len j =
     (case j of
        JArr xs \<Rightarrow> Inr (length xs)
      | JStr s \<Rightarrow> Inr (length s)
      | JObj kvs \<Rightarrow> Inr (length kvs)
      | _ \<Rightarrow> Inl TypeError)"

text \<open>
  Text. A string is a list of HOL's 8-bit characters, read as the code points U+0000 to
  U+00FF; text with other code points is outside the model. In this range
  \<^verbatim>\<open>str.isspace\<close> holds of the twelve characters of \<open>is_space\<close>, which
  \<^verbatim>\<open>str.strip()\<close> removes, and the decimal digits are the ASCII digits.
\<close>

definition is_space :: "char \<Rightarrow> bool" where
  "is_space c =
     (c \<in> set [CHR 0x09, CHR 0x0A, CHR 0x0B, CHR 0x0C, CHR 0x0D, CHR 0x1C, CHR 0x1D,
               CHR 0x1E, CHR 0x1F, CHR 0x20, CHR 0x85, CHR 0xA0])"

definition strip :: "string \<Rightarrow> string" where
  "strip s = rev (dropWhile is_space (rev (dropWhile is_space s)))"

definition is_digit :: "char \<Rightarrow> bool" where
  "is_digit c = (c \<in> set ''0123456789'')"

text \<open>\<^verbatim>\<open>str.isdigit\<close> on one character: it also holds of the superscripts 2, 3 and 1.\<close>

definition py_isdigit :: "char \<Rightarrow> bool" where
  "py_isdigit c = (is_digit c \<or> c \<in> set [CHR 0xB2, CHR 0xB3, CHR 0xB9])"

definition digit_val :: "char \<Rightarrow> int" where
  "digit_val c = int (of_char c) - 48"

text \<open>
  What \<^verbatim>\<open>int(s)\<close> and \<^verbatim>\<open>float(s)\<close> do to a string before they read the literal
  (CPython 3.11): a white-space character beyond ASCII is replaced by a blank, and then
  the characters that C calls white space (the blank and 0x09 to 0x0D, but not 0x1C to
  0x1F) are skipped on both sides.
\<close>

definition is_c_space :: "char \<Rightarrow> bool" where
  "is_c_space c = (c \<in> set [CHR 0x09, CHR 0x0A, CHR 0x0B, CHR 0x0C, CHR 0x0D, CHR 0x20])"

definition to_ascii_space :: "char \<Rightarrow> char" where
  "to_ascii_space c = (if c = CHR 0x85 \<or> c = CHR 0xA0 then CHR 0x20 else c)"

definition c_strip :: "string \<Rightarrow> string" where
  "c_strip s = rev (dropWhile is_c_space (rev (dropWhile is_c_space s)))"

text \<open>
  \<^verbatim>\<open>int(s)\<close> on a string: an optional sign, then decimal digits, where single
  underscores may stand between digits. A literal of more than 4300 digits is refused
  (\<^verbatim>\<open>sys.int_info.default_max_str_digits\<close>). Every refusal is a ValueError.
\<close>

fun parse_digits :: "int \<Rightarrow> bool \<Rightarrow> string \<Rightarrow> int option" where
  "parse_digits acc after_digit [] = (if after_digit then Some acc else None)"
| "parse_digits acc after_digit (c # cs) =
     (if is_digit c then parse_digits (10 * acc + digit_val c) True cs
      else if c = CHR ''_'' \<and> after_digit then parse_digits acc False cs
      else None)"

definition max_str_digits :: nat where
  "max_str_digits = 4300"

definition int_of_string :: "string \<Rightarrow> int option" where
  "int_of_string s =
     (let literal = c_strip (map to_ascii_space s)
      in if max_str_digits < length (filter is_digit literal) then None
         else (case literal of
                 [] \<Rightarrow> None
               | c # cs \<Rightarrow>
                   if c = CHR ''-'' then map_option uminus (parse_digits 0 False cs)
                   else if c = CHR ''+'' then parse_digits 0 False cs
                   else parse_digits 0 False (c # cs)))"

text \<open>
  A numpy float without its rounding: a real number, an infinity or NaN. Division by
  zero gives an infinity or NaN, as numpy's arrays do; the sign of a zero is not kept.
\<close>

datatype npfloat = Fin real | PInf | NInf | NaNf

definition np_neg :: "npfloat \<Rightarrow> npfloat" where
  "np_neg a = (case a of Fin x \<Rightarrow> Fin (- x) | PInf \<Rightarrow> NInf | NInf \<Rightarrow> PInf | NaNf \<Rightarrow> NaNf)"

text \<open>The largest float is \<open>2 ^ 1024 - 2 ^ 971\<close>; from half a step above it on, a number
  is rounded to infinity.\<close>

definition overflow :: "real \<Rightarrow> npfloat" where
  "overflow x =
     (if 2 ^ 1024 - 2 ^ 970 \<le> \<bar>x\<bar> then (if x < 0 then NInf else PInf) else Fin x)"

text \<open>
  \<^verbatim>\<open>int(x)\<close> on a parsed JSON value. A float is cut towards zero; an infinity is
  refused with an OverflowError and NaN with a ValueError.
\<close>

definition py_int :: "json \<Rightarrow> pyerror + int" where
  "py_int j =
     (case j of
        JInt n \<Rightarrow> Inr n
      | JBool b \<Rightarrow> Inr (if b then 1 else 0)
      | JReal r \<Rightarrow>
          (case overflow r of
             Fin x \<Rightarrow> Inr (if 0 \<le> x then \<lfloor>x\<rfloor> else \<lceil>x\<rceil>)
           | _ \<Rightarrow> Inl OverflowError)
      | JNaN \<Rightarrow> Inl ValueError
      | JStr s \<Rightarrow> (case int_of_string s of None \<Rightarrow> Inl ValueError | Some n \<Rightarrow> Inr n)
      | _ \<Rightarrow> Inl TypeError)"

text \<open>
  \<^verbatim>\<open>float(s)\<close> on a string (CPython 3.11). Underscores are taken out first, and each
  of them has to stand between two digits. The literal is an optional sign and then
  \<^verbatim>\<open>inf\<close>, \<^verbatim>\<open>infinity\<close> or \<^verbatim>\<open>nan\<close> in any case, or a decimal number: digits with an
  optional point, at least one digit in all, and an optional exponent. The number read is
  the exact decimal one, not the nearest float; a number too large for a float is an
  infinity. Every refusal is a ValueError.
\<close>

fun drop_underscores :: "char option \<Rightarrow> string \<Rightarrow> string option" where
  "drop_underscores prev [] = (if prev = Some CHR ''_'' then None else Some [])"
| "drop_underscores prev (c # cs) =
     (if c = CHR ''_''
      then (if (case prev of None \<Rightarrow> False | Some p \<Rightarrow> is_digit p)
            then drop_underscores (Some c) cs else None)
      else if prev = Some CHR ''_'' \<and> \<not> is_digit c then None
      else map_option ((#) c) (drop_underscores (Some c) cs))"

definition lower_letter :: "char \<Rightarrow> char" where
  "lower_letter c =
     (if c = CHR ''I'' then CHR ''i'' else if c = CHR ''N'' then CHR ''n''
      else if c = CHR ''F'' then CHR ''f'' else if c = CHR ''T'' then CHR ''t''
      else if c = CHR ''Y'' then CHR ''y'' else if c = CHR ''A'' then CHR ''a'' else c)"

definition digits_value :: "string \<Rightarrow> int" where
  "digits_value ds = fold (\<lambda>c acc. 10 * acc + digit_val c) ds 0"

text \<open>The exponent of a literal: nothing, or \<open>e\<close> or \<open>E\<close>, an optional sign and digits.\<close>

definition exponent :: "string \<Rightarrow> int option" where
  "exponent s =
     (case s of
        [] \<Rightarrow> Some 0
      | c # cs \<Rightarrow>
          if c = CHR ''e'' \<or> c = CHR ''E''
          then (let (negative, ds) =
                      (case cs of
                         [] \<Rightarrow> (False, [])
                       | d # rest \<Rightarrow>
                           if d = CHR ''-'' then (True, rest)
                           else if d = CHR ''+'' then (False, rest) else (False, cs))
                in if ds = [] \<or> \<not> list_all is_digit ds then None
                   else Some (if negative then - digits_value ds else digits_value ds))
          else None)"

definition float_literal :: "string \<Rightarrow> npfloat option" where
  "float_literal s =
     (let word = map lower_letter s
      in if word = ''inf'' \<or> word = ''infinity'' then Some PInf
         else if word = ''nan'' then Some NaNf
         else
           let int_part = takeWhile is_digit s;
               after_int = dropWhile is_digit s;
               (frac_part, after_frac) =
                 (case after_int of
                    [] \<Rightarrow> ([], [])
                  | c # cs \<Rightarrow>
                      if c = CHR ''.'' then (takeWhile is_digit cs, dropWhile is_digit cs)
                      else ([], after_int))
           in if int_part = [] \<and> frac_part = [] then None
              else (case exponent after_frac of
                      None \<Rightarrow> None
                    | Some e \<Rightarrow>
                        let mantissa = of_int (digits_value (int_part @ frac_part)) /
                                       10 ^ length frac_part
                        in Some (overflow (if 0 \<le> e then mantissa * 10 ^ nat e
                                           else mantissa / 10 ^ nat (- e)))))"

definition float_of_string :: "string \<Rightarrow> npfloat option" where
  "float_of_string s =
     (case drop_underscores None (map to_ascii_space s) of
        None \<Rightarrow> None
      | Some t \<Rightarrow>
          (case c_strip t of
             [] \<Rightarrow> None
           | c # cs \<Rightarrow>
               if c = CHR ''-'' then map_option np_neg (float_literal cs)
               else if c = CHR ''+'' then float_literal cs
               else float_literal (c # cs)))"

fun np_add :: "npfloat \<Rightarrow> npfloat \<Rightarrow> npfloat" where
  "np_add NaNf b = NaNf"
| "np_add a NaNf = NaNf"
| "np_add (Fin x) (Fin y) = Fin (x + y)"
| "np_add PInf NInf = NaNf"
| "np_add NInf PInf = NaNf"
| "np_add PInf b = PInf"
| "np_add NInf b = NInf"
| "np_add (Fin x) b = b"

definition np_sub :: "npfloat \<Rightarrow> npfloat \<Rightarrow> npfloat" where
  "np_sub a b = np_add a (np_neg b)"

definition np_abs :: "npfloat \<Rightarrow> npfloat" where
  "np_abs a = (case a of Fin x \<Rightarrow> Fin \<bar>x\<bar> | NaNf \<Rightarrow> NaNf | _ \<Rightarrow> PInf)"

definition np_sign :: "npfloat \<Rightarrow> int" where
  "np_sign a =
     (case a of
        Fin x \<Rightarrow> (if x < 0 then - 1 else if x = 0 then 0 else 1)
      | PInf \<Rightarrow> 1 | NInf \<Rightarrow> - 1 | NaNf \<Rightarrow> 0)"

definition signed_inf :: "int \<Rightarrow> npfloat" where
  "signed_inf k = (if k < 0 then NInf else if k = 0 then NaNf else PInf)"

fun np_mul :: "npfloat \<Rightarrow> npfloat \<Rightarrow> npfloat" where
  "np_mul NaNf b = NaNf"
| "np_mul a NaNf = NaNf"
| "np_mul (Fin x) (Fin y) = Fin (x * y)"
| "np_mul a b = signed_inf (np_sign a * np_sign b)"

fun np_div :: "npfloat \<Rightarrow> npfloat \<Rightarrow> npfloat" where
  "np_div NaNf b = NaNf"
| "np_div a NaNf = NaNf"
| "np_div (Fin x) (Fin y) = (if y = 0 then signed_inf (np_sign (Fin x)) else Fin (x / y))"
| "np_div (Fin x) b = Fin 0"
| "np_div a (Fin y) = (if y < 0 then np_neg a else a)"
| "np_div a b = NaNf"

definition np_sqrt :: "npfloat \<Rightarrow> npfloat" where
  "np_sqrt a =
     (case a of
        Fin x \<Rightarrow> (if x < 0 then NaNf else Fin (sqrt x))
      | PInf \<Rightarrow> PInf
      | _ \<Rightarrow> NaNf)"

definition np_mean :: "npfloat list \<Rightarrow> npfloat" where
  "np_mean xs = np_div (fold (\<lambda>x acc. np_add acc x) xs (Fin 0)) (Fin (of_nat (length xs)))"

text \<open>
  An operation on two arrays, element by element. Arrays of the same length pair up,
  an array of length one is repeated, and any other pair of lengths raises.
\<close>

definition broadcast2 :: "('a \<Rightarrow> 'b \<Rightarrow> 'c) \<Rightarrow> 'a list \<Rightarrow> 'b list \<Rightarrow> pyerror + 'c list" where
  "broadcast2 f xs ys =
     (if length xs = length ys then Inr (map2 f xs ys)
      else if length ys = 1 then Inr (map (\<lambda>x. f x (hd ys)) xs)
      else if length xs = 1 then Inr (map (f (hd xs)) ys)
      else Inl ValueError)"

section \<open>Customer segmentation (forecast/app.py, lines 335-614)\<close>

subsection \<open>Data frames\<close>

text \<open>
  A cell of a pandas frame read from CSV: a number, the missing value NaN, a string, and,
  after \<^verbatim>\<open>pd.to_datetime(..., errors='coerce')\<close>, a timestamp (nanoseconds) or NaT.
  \<open>PyNone\<close> is the \<^verbatim>\<open>None\<close> that the JSON conversion at the end of
  \<^verbatim>\<open>segment_customers\<close> writes for missing values. Floats are modelled as reals:
  rounding is not represented, NaN is.
\<close>

datatype cell = Num real | NaN | Str string | Ts int | NaT | PyNone

text \<open>
  A frame is column oriented, as in pandas: \<^verbatim>\<open>name in df.columns\<close> is
  \<open>columns df name \<noteq> None\<close>, \<^verbatim>\<open>df[name]\<close> raises KeyError on an absent column and
  \<^verbatim>\<open>df[name] = scalar\<close> broadcasts the scalar to every row.
\<close>

record dataframe =
  n_rows :: nat
  columns :: "string \<rightharpoonup> cell list"

definition get_col :: "dataframe \<Rightarrow> string \<Rightarrow> pyerror + cell list" where
  "get_col df name = (case columns df name of None \<Rightarrow> Inl KeyError | Some cs \<Rightarrow> Inr cs)"

definition set_col :: "dataframe \<Rightarrow> string \<Rightarrow> cell list \<Rightarrow> dataframe" where
  "set_col df name cs = df\<lparr>columns := (columns df)(name \<mapsto> cs)\<rparr>"

definition set_col_scalar :: "dataframe \<Rightarrow> string \<Rightarrow> cell \<Rightarrow> dataframe" where
  "set_col_scalar df name v = set_col df name (replicate (n_rows df) v)"

definition isna :: "cell \<Rightarrow> bool" where
  "isna c = (c = NaN \<or> c = NaT \<or> c = PyNone)"

definition fillna :: "cell \<Rightarrow> cell list \<Rightarrow> cell list" where
  "fillna v cs = map (\<lambda>c. if isna c then v else c) cs"

text \<open>\<^verbatim>\<open>Series.max()\<close> skips missing values and is NaN when nothing is left.\<close>

definition series_max :: "cell list \<Rightarrow> cell" where
  "series_max cs =
     (case [x. Num x \<leftarrow> cs] of [] \<Rightarrow> NaN | x # xs \<Rightarrow> Num (fold max xs x))"

text \<open>\<^verbatim>\<open>df.to_dict(orient='records')\<close>: one dictionary per row.\<close>

definition to_records :: "dataframe \<Rightarrow> (string \<rightharpoonup> cell) list" where
  "to_records df =
     map (\<lambda>i. \<lambda>name. map_option (\<lambda>cs. cs ! i) (columns df name)) [0..<n_rows df]"

text \<open>The value that record \<open>i\<close> of a frame has in a column, if the frame has both.\<close>

definition cell_at :: "dataframe \<Rightarrow> string \<Rightarrow> nat \<Rightarrow> cell option" where
  "cell_at df name i =
     (case columns df name of
        None \<Rightarrow> None
      | Some cs \<Rightarrow> if i < length cs then Some (cs ! i) else None)"

subsection \<open>The libraries the pipeline calls\<close>

text \<open>
  pandas' date parser, scikit-learn's \<^verbatim>\<open>StandardScaler\<close> and the fitting of
  \<^verbatim>\<open>KMeans\<close> are external collaborators: they are parameters of the model. A fit or a
  transform either raises or returns. \<open>'s\<close> is the fitted state of the scaler; a fitted
  k-means model is its list of cluster centres.

  \<open>to_datetime\<close> is \<^verbatim>\<open>pd.to_datetime(column, errors='coerce')\<close> on a whole column:
  what a cell parses to depends on the other cells (the format is inferred from the
  column), and so does the type of the result. The parsed column is read by position,
  a timestamp in nanoseconds or nothing for NaT, and it is timezone-aware (dtype
  \<^verbatim>\<open>datetime64[ns, tz]\<close>, as for dates written with \<^verbatim>\<open>Z\<close> or an offset) or naive.

  \<open>simulate_other\<close> is a run of scikit-fuzzy's simulation on four inputs of which
  one is not a number of its antecedent's universe; it raises, or it answers the output,
  a number or nothing for NaN. Neither the sources nor the spec say what the library
  computes there.
\<close>

record dtcolumn =
  tz_aware :: bool
  stamp :: "nat \<Rightarrow> int option"

record 's seglibs =
  to_datetime :: "cell list \<Rightarrow> pyerror + dtcolumn"
  scaler_fit :: "cell list list \<Rightarrow> pyerror + 's"
  scaler_transform :: "'s \<Rightarrow> cell list list \<Rightarrow> pyerror + cell list list"
  kmeans_fit :: "nat \<Rightarrow> cell list list \<Rightarrow> pyerror + real list list"
  simulate_other :: "npfloat list \<Rightarrow> pyerror + real option"

text \<open>
  What scikit-learn documents of \<^verbatim>\<open>KMeans(n_clusters=k).fit\<close>: a fit that returns has
  exactly \<open>k\<close> centres (\<^verbatim>\<open>cluster_centers_\<close> has shape \<open>(k, n_features)\<close>).
\<close>

definition kmeans_contract :: "'s seglibs \<Rightarrow> bool" where
  "kmeans_contract env = (\<forall>k X cs. kmeans_fit env k X = Inr cs \<longrightarrow> length cs = k)"

text \<open>An estimator object is created unfitted and becomes fitted when \<^verbatim>\<open>fit\<close> returns.\<close>

datatype 'a estimator = Unfitted | Fitted 'a

text \<open>The three module globals of lines 338-340; \<open>None\<close> is Python's \<^verbatim>\<open>None\<close>.\<close>

record 's seg_state =
  segmentation_scaler :: "'s estimator option"
  segmentation_kmeans :: "real list list estimator option"
  segmentation_initialized :: bool

definition initial_state :: "'s seg_state" where
  "initial_state =
     \<lparr>segmentation_scaler = None, segmentation_kmeans = None,
      segmentation_initialized = False\<rparr>"

subsection \<open>Preprocessing shared by initialisation and classification\<close>

definition clustering_features :: "string list" where
  "clustering_features =
     [''total_spent'', ''intent_score'', ''touchpoints_count'', ''recency'']"

definition ns_per_day :: int where
  "ns_per_day = 86400000000000"

text \<open>The cells of a parsed date column of \<open>n\<close> rows.\<close>

definition datetime_cells :: "dtcolumn \<Rightarrow> nat \<Rightarrow> cell list" where
  "datetime_cells parsed n =
     map (\<lambda>i. case stamp parsed i of None \<Rightarrow> NaT | Some t \<Rightarrow> Ts t) [0..<n]"

text \<open>
  \<^verbatim>\<open>(now - df['last_purchase_date']).dt.days\<close>: whole days, rounded down; NaT gives NaN.
  \<^verbatim>\<open>pd.Timestamp.now()\<close> is a naive timestamp, and pandas refuses to subtract a
  timezone-aware column from it with a TypeError.
\<close>

definition days_since :: "int \<Rightarrow> cell \<Rightarrow> cell" where
  "days_since now c =
     (case c of Ts t \<Rightarrow> Num (of_int ((now - t) div ns_per_day)) | _ \<Rightarrow> NaN)"

definition days_before :: "int \<Rightarrow> dtcolumn \<Rightarrow> nat \<Rightarrow> pyerror + cell list" where
  "days_before now parsed n =
     (if tz_aware parsed then Inl TypeError
      else Inr (map (days_since now) (datetime_cells parsed n)))"

text \<open>
  Lines 429-436 and 476-483: a default is written only for a feature whose column is
  absent from the frame.
\<close>

definition default_feature :: "string \<Rightarrow> cell" where
  "default_feature feature =
     (if feature = ''intent_score'' then Num (1 / 2)
      else if feature = ''touchpoints_count'' then Num 0
      else Num 0)"

definition ensure_feature :: "string \<Rightarrow> dataframe \<Rightarrow> dataframe" where
  "ensure_feature feature df =
     (case columns df feature of
        None \<Rightarrow> set_col_scalar df feature (default_feature feature)
      | Some _ \<Rightarrow> df)"

text \<open>
  Lines 416-436 of \<^verbatim>\<open>initialize_segmentation_models\<close> and lines 457-483 of
  \<^verbatim>\<open>prepare_customer_data\<close> are the same statements; \<open>now\<close> is
  \<^verbatim>\<open>pd.Timestamp.now()\<close>.
\<close>

definition preprocess :: "'s seglibs \<Rightarrow> int \<Rightarrow> dataframe \<Rightarrow> pyerror + dataframe" where
  "preprocess env now df =
     (case get_col df ''last_purchase_date'' of
        Inl e \<Rightarrow> Inl e
      | Inr dates \<Rightarrow>
     (case to_datetime env dates of
        Inl e \<Rightarrow> Inl e
      | Inr parsed \<Rightarrow>
          let df1 = set_col df ''last_purchase_date'' (datetime_cells parsed (length dates)) in
     (case get_col df1 ''total_spent'' of
        Inl e \<Rightarrow> Inl e
      | Inr spent \<Rightarrow>
          let df2 = set_col df1 ''total_spent'' (fillna (Num 0) spent) in
     (case days_before now parsed (length dates) of
        Inl e \<Rightarrow> Inl e
      | Inr recency \<Rightarrow>
          let max_recency = (case series_max recency of Num m \<Rightarrow> m | _ \<Rightarrow> 1000);
              df3 = set_col df2 ''recency'' (fillna (Num (max_recency + 30)) recency)
          in Inr (fold ensure_feature clustering_features df3)))))"

text \<open>\<^verbatim>\<open>df[clustering_features]\<close>: the four feature values of every row.\<close>

definition feature_rows :: "dataframe \<Rightarrow> cell list list" where
  "feature_rows df =
     map (\<lambda>i. map (\<lambda>f. case columns df f of None \<Rightarrow> NaN | Some cs \<Rightarrow> cs ! i)
                   clustering_features)
         [0..<n_rows df]"

subsection \<open>Initialisation\<close>

text \<open>
  \<^verbatim>\<open>initialize_segmentation_models\<close>, lines 410-453. Every assignment to a global is a
  state update at the place where the source makes it; the \<^verbatim>\<open>except Exception\<close> clause
  returns \<open>False\<close> with the globals as they are at the raise.
\<close>

definition initialize_segmentation_models ::
  "'s seglibs \<Rightarrow> int \<Rightarrow> 's seg_state \<Rightarrow> dataframe \<Rightarrow> 's seg_state \<times> bool" where
  "initialize_segmentation_models env now st df_training =
     (case preprocess env now df_training of
        Inl e \<Rightarrow> (st, False)
      | Inr df \<Rightarrow>
          let X = feature_rows df;
              st1 = st\<lparr>segmentation_scaler := Some Unfitted\<rparr>
          in (case scaler_fit env X of
                Inl e \<Rightarrow> (st1, False)
              | Inr s \<Rightarrow>
                  let st2 = st1\<lparr>segmentation_scaler := Some (Fitted s)\<rparr>;
                      st3 = st2\<lparr>segmentation_kmeans := Some Unfitted\<rparr>
                  in (case scaler_transform env s X of
                        Inl e \<Rightarrow> (st3, False)
                      | Inr Xs \<Rightarrow>
                          (case kmeans_fit env 4 Xs of
                             Inl e \<Rightarrow> (st3, False)
                           | Inr centres \<Rightarrow>
                               (st3\<lparr>segmentation_kmeans := Some (Fitted centres),
                                    segmentation_initialized := True\<rparr>, True)))))"

subsection \<open>The fuzzy stage\<close>

text \<open>
  Lines 343-401 build the inference system with the scikit-fuzzy library. What the source
  itself fixes is below as it is written there: the triangular membership functions of the
  four antecedents and of the consequent, and the six rules. \<open>trimf\<close> is the library's
  triangle \<^verbatim>\<open>fuzz.trimf(universe, [a, b, c])\<close>: 1 at \<open>b\<close>, linear on \<open>(a, b)\<close> and
  \<open>(b, c)\<close>, 0 elsewhere. The break points all lie on the sampled universes, so the
  library's linear interpolation between samples is the triangle itself.
\<close>

definition trimf :: "real \<Rightarrow> real \<Rightarrow> real \<Rightarrow> real \<Rightarrow> real" where
  "trimf a b c x =
     (if x = b then 1
      else if a < x \<and> x < b then (x - a) / (b - a)
      else if b < x \<and> x < c then (c - x) / (c - b)
      else 0)"

definition total_spent_low :: "real \<Rightarrow> real" where
  "total_spent_low = trimf 0 0 1500"

definition total_spent_medium :: "real \<Rightarrow> real" where
  "total_spent_medium = trimf 1000 2500 4000"

definition total_spent_high :: "real \<Rightarrow> real" where
  "total_spent_high = trimf 3500 5000 5000"

definition intent_score_weak :: "real \<Rightarrow> real" where
  "intent_score_weak = trimf 0 0 (1 / 2)"

definition intent_score_moderate :: "real \<Rightarrow> real" where
  "intent_score_moderate = trimf (3 / 10) (6 / 10) (9 / 10)"

definition intent_score_strong :: "real \<Rightarrow> real" where
  "intent_score_strong = trimf (7 / 10) 1 1"

definition touchpoints_count_low :: "real \<Rightarrow> real" where
  "touchpoints_count_low = trimf 0 0 7"

definition touchpoints_count_medium :: "real \<Rightarrow> real" where
  "touchpoints_count_medium = trimf 5 12 18"

definition touchpoints_count_high :: "real \<Rightarrow> real" where
  "touchpoints_count_high = trimf 15 20 20"

definition recency_recent :: "real \<Rightarrow> real" where
  "recency_recent = trimf 0 0 200"

definition recency_moderate :: "real \<Rightarrow> real" where
  "recency_moderate = trimf 150 400 650"

definition recency_distant :: "real \<Rightarrow> real" where
  "recency_distant = trimf 600 800 800"

datatype segment_term = New_customer_nurture | High_value_engagement | Re_engagement

definition promotional_segment_universe :: "real list" where
  "promotional_segment_universe = map of_nat [0..<11]"

definition promotional_segment_ctrl :: "segment_term \<Rightarrow> real \<Rightarrow> real" where
  "promotional_segment_ctrl t =
     (case t of
        New_customer_nurture \<Rightarrow> trimf 0 0 4
      | High_value_engagement \<Rightarrow> trimf 3 6 9
      | Re_engagement \<Rightarrow> trimf 7 10 10)"

text \<open>The crisp inputs of one simulation run.\<close>

record sim_input =
  in_total_spent :: real
  in_intent_score :: real
  in_touchpoints_count :: real
  in_recency :: real

text \<open>
  The rules of lines 384-395. \<^verbatim>\<open>&\<close> between terms is the library's default
  conjunction, the minimum.
\<close>

definition rule1 :: "sim_input \<Rightarrow> real" where
  "rule1 v = min (min (total_spent_high (in_total_spent v))
                      (intent_score_strong (in_intent_score v)))
                 (recency_recent (in_recency v))"

definition rule2 :: "sim_input \<Rightarrow> real" where
  "rule2 v = min (total_spent_low (in_total_spent v)) (recency_distant (in_recency v))"

definition rule3 :: "sim_input \<Rightarrow> real" where
  "rule3 v = min (min (min (total_spent_low (in_total_spent v))
                           (intent_score_weak (in_intent_score v)))
                      (recency_recent (in_recency v)))
                 (touchpoints_count_low (in_touchpoints_count v))"

definition rule4 :: "sim_input \<Rightarrow> real" where
  "rule4 v = min (min (total_spent_medium (in_total_spent v))
                      (intent_score_moderate (in_intent_score v)))
                 (recency_moderate (in_recency v))"

definition rule5 :: "sim_input \<Rightarrow> real" where
  "rule5 v = min (recency_distant (in_recency v))
                 (touchpoints_count_low (in_touchpoints_count v))"

definition rule6 :: "sim_input \<Rightarrow> real" where
  "rule6 v = min (intent_score_strong (in_intent_score v))
                 (touchpoints_count_high (in_touchpoints_count v))"

text \<open>
  Modelled from the spec: the inference engine of the scikit-fuzzy library
  (\<^verbatim>\<open>ControlSystemSimulation.compute\<close>), which is not among the sources. The spec has
  it as a Mamdani system: all six rules are consulted, the firing strengths of the rules
  with the same consequent term are combined by maximum, every output term is clipped at
  its strength, the clipped terms are combined by maximum and the result is defuzzified
  by its centroid. The definitions follow the library's algorithm: the output universe
  \<open>0, 1, ..., 10\<close> is extended by the points where a term crosses its clipping level,
  the aggregate is sampled there, and the centroid is the one of the polygon through the
  samples. An aggregate that is zero everywhere has no centroid: the library raises, and
  \<^verbatim>\<open>apply_fuzzy_segmentation\<close> catches it as a ValueError.
\<close>

definition term_cut :: "segment_term \<Rightarrow> sim_input \<Rightarrow> real" where
  "term_cut t v =
     (case t of
        New_customer_nurture \<Rightarrow> rule3 v
      | High_value_engagement \<Rightarrow> max (max (rule1 v) (rule4 v)) (rule6 v)
      | Re_engagement \<Rightarrow> max (rule2 v) (rule5 v))"

definition sampled :: "(real \<Rightarrow> real) \<Rightarrow> (real \<times> real) list" where
  "sampled f = map (\<lambda>x. (x, f x)) promotional_segment_universe"

fun interp_membership :: "(real \<times> real) list \<Rightarrow> real \<Rightarrow> real" where
  "interp_membership [] x = 0"
| "interp_membership [(x1, y1)] x = (if x = x1 then y1 else 0)"
| "interp_membership ((x1, y1) # (x2, y2) # ps) x =
     (if x < x1 then 0
      else if x \<le> x2 then y1 + (x - x1) * (y2 - y1) / (x2 - x1)
      else interp_membership ((x2, y2) # ps) x)"

fun interp_universe :: "(real \<times> real) list \<Rightarrow> real \<Rightarrow> real list" where
  "interp_universe ((x1, y1) # (x2, y2) # ps) y =
     (let above = (\<lambda>v. if y = 0 then y < v else y \<le> v);
          rest = interp_universe ((x2, y2) # ps) y
      in if above y1 \<noteq> above y2
         then (x1 + (y - y1) * (x2 - x1) / (y2 - y1)) # rest
         else rest)"
| "interp_universe ps y = []"

definition union1d :: "real list \<Rightarrow> real list \<Rightarrow> real list" where
  "union1d xs ys = sort (remdups (xs @ ys))"

definition segment_terms :: "segment_term list" where
  "segment_terms = [New_customer_nurture, High_value_engagement, Re_engagement]"

definition find_memberships :: "sim_input \<Rightarrow> (real \<times> real) list" where
  "find_memberships v =
     (let new_values =
            concat (map (\<lambda>t. interp_universe (sampled (promotional_segment_ctrl t))
                                               (term_cut t v)) segment_terms);
          new_universe = union1d promotional_segment_universe new_values
      in map (\<lambda>x. (x, fold max
                         (map (\<lambda>t. min (term_cut t v)
                                        (interp_membership
                                           (sampled (promotional_segment_ctrl t)) x))
                              segment_terms) 0))
             new_universe)"

text \<open>The sums of moment times area and of area over the pieces of the polygon.\<close>

fun centroid_sums :: "(real \<times> real) list \<Rightarrow> real \<times> real" where
  "centroid_sums ((x1, y1) # (x2, y2) # ps) =
     (let (sm, sa) = centroid_sums ((x2, y2) # ps)
      in if (y1 = 0 \<and> y2 = 0) \<or> x1 = x2 then (sm, sa)
         else let (moment, area) =
                (if y1 = y2 then (1 / 2 * (x1 + x2), (x2 - x1) * y1)
                 else if y1 = 0 \<and> y2 \<noteq> 0
                   then (2 / 3 * (x2 - x1) + x1, 1 / 2 * (x2 - x1) * y2)
                 else if y2 = 0 \<and> y1 \<noteq> 0
                   then (1 / 3 * (x2 - x1) + x1, 1 / 2 * (x2 - x1) * y1)
                 else ((2 / 3 * (x2 - x1) * (y2 + 1 / 2 * y1)) / (y1 + y2) + x1,
                       1 / 2 * (x2 - x1) * (y1 + y2)))
              in (sm + moment * area, sa + area))"
| "centroid_sums ps = (0, 0)"

definition float_eps :: real where
  "float_eps = 1 / 2 ^ 52"

definition centroid :: "(real \<times> real) list \<Rightarrow> real" where
  "centroid pts = (let (sm, sa) = centroid_sums pts in sm / max sa float_eps)"

definition compute_promotional_segment :: "sim_input \<Rightarrow> pyerror + real" where
  "compute_promotional_segment v =
     (let pts = find_memberships v
      in if sum_list (map snd pts) = 0 then Inl ValueError else Inr (centroid pts))"

text \<open>\<^verbatim>\<open>float(row_data[name])\<close>: KeyError on an absent field, ValueError on a string
  that is no float literal, TypeError on a value that is neither a number nor a string.\<close>

definition py_float :: "cell \<Rightarrow> pyerror + npfloat" where
  "py_float c =
     (case c of
        Num x \<Rightarrow> Inr (Fin x)
      | NaN \<Rightarrow> Inr NaNf
      | Str s \<Rightarrow> (case float_of_string s of None \<Rightarrow> Inl ValueError | Some x \<Rightarrow> Inr x)
      | _ \<Rightarrow> Inl TypeError)"

definition row_float :: "(string \<rightharpoonup> cell) \<Rightarrow> string \<Rightarrow> pyerror + npfloat" where
  "row_float row_data name =
     (case row_data name of None \<Rightarrow> Inl KeyError | Some c \<Rightarrow> py_float c)"

text \<open>Lines 498-501: the four inputs, converted in this order.\<close>

definition read_inputs :: "(string \<rightharpoonup> cell) \<Rightarrow> pyerror + npfloat list" where
  "read_inputs row_data =
     (case row_float row_data ''total_spent'' of Inl e \<Rightarrow> Inl e | Inr ts \<Rightarrow>
      case row_float row_data ''intent_score'' of Inl e \<Rightarrow> Inl e | Inr sc \<Rightarrow>
      case row_float row_data ''touchpoints_count'' of Inl e \<Rightarrow> Inl e | Inr tc \<Rightarrow>
      case row_float row_data ''recency'' of Inl e \<Rightarrow> Inl e | Inr rc \<Rightarrow>
        Inr [ts, sc, tc, rc])"

text \<open>
  The universes of lines 343-346 run from 0 to 5000, 1, 20 and 800. Four numbers that
  lie in them are the crisp inputs of a run of the engine above. For any other inputs
  (a NaN, an infinity, a number outside its universe) the run is the library's:
  \<open>simulate_other\<close>.
\<close>

definition in_universe :: "real \<Rightarrow> real \<Rightarrow> npfloat \<Rightarrow> real option" where
  "in_universe lo hi x =
     (case x of Fin v \<Rightarrow> if lo \<le> v \<and> v \<le> hi then Some v else None | _ \<Rightarrow> None)"

definition crisp_inputs :: "npfloat list \<Rightarrow> sim_input option" where
  "crisp_inputs xs =
     (case xs of
        [ts, sc, tc, rc] \<Rightarrow>
          (case in_universe 0 5000 ts of None \<Rightarrow> None | Some a \<Rightarrow>
           case in_universe 0 1 sc of None \<Rightarrow> None | Some b \<Rightarrow>
           case in_universe 0 20 tc of None \<Rightarrow> None | Some c \<Rightarrow>
           case in_universe 0 800 rc of None \<Rightarrow> None | Some d \<Rightarrow>
             Some \<lparr>in_total_spent = a, in_intent_score = b, in_touchpoints_count = c,
                   in_recency = d\<rparr>)
      | _ \<Rightarrow> None)"

definition simulate :: "'s seglibs \<Rightarrow> npfloat list \<Rightarrow> pyerror + real option" where
  "simulate env xs =
     (case crisp_inputs xs of
        None \<Rightarrow> simulate_other env xs
      | Some v \<Rightarrow>
          (case compute_promotional_segment v of
             Inl e \<Rightarrow> Inl e
           | Inr score \<Rightarrow> Inr (Some score)))"

definition promotional_bins :: "real list" where
  "promotional_bins = [0, 45 / 10, 75 / 10, 10]"

definition promotional_labels :: "string list" where
  "promotional_labels = [''New Customer Nurture'', ''High Value Engagement'', ''Re-engagement'']"

definition segment_category :: "real \<Rightarrow> string" where
  "segment_category score =
     (if promotional_bins ! 0 \<le> score \<and> score < promotional_bins ! 1
        then promotional_labels ! 0
      else if promotional_bins ! 1 \<le> score \<and> score < promotional_bins ! 2
        then promotional_labels ! 1
      else if promotional_bins ! 2 \<le> score \<and> score \<le> promotional_bins ! 3
        then promotional_labels ! 2
      else ''Unknown'')"

text \<open>
  \<^verbatim>\<open>apply_fuzzy_segmentation\<close>, lines 491-522. Its \<^verbatim>\<open>except\<close> clause catches ValueError
  and KeyError and answers the initial pair (NaN, 'Unknown'); any other exception leaves
  the function. An output that is NaN keeps the category 'Unknown' (line 511).
\<close>

definition caught :: "pyerror \<Rightarrow> pyerror + (cell \<times> string)" where
  "caught e = (if e = ValueError \<or> e = KeyError then Inr (NaN, ''Unknown'') else Inl e)"

definition apply_fuzzy_segmentation ::
  "'s seglibs \<Rightarrow> (string \<rightharpoonup> cell) \<Rightarrow> pyerror + (cell \<times> string)" where
  "apply_fuzzy_segmentation env row_data =
     (case read_inputs row_data of
        Inl e \<Rightarrow> caught e
      | Inr xs \<Rightarrow>
          (case simulate env xs of
             Inl e \<Rightarrow> caught e
           | Inr None \<Rightarrow> Inr (NaN, ''Unknown'')
           | Inr (Some score) \<Rightarrow> Inr (Num score, segment_category score)))"

subsection \<open>The cluster stage\<close>

text \<open>
  Modelled from the spec: \<^verbatim>\<open>KMeans.predict\<close> of scikit-learn, which is not among the
  sources. The spec has it as the distance-based assignment of a row to one of the frozen
  centres: the label of a row is the index of the nearest centre, the first one on a tie.
  It raises on a model that is not fitted and on a value that is not a finite number.
\<close>

definition sq_dist :: "real list \<Rightarrow> real list \<Rightarrow> real" where
  "sq_dist x c = sum_list (map (\<lambda>(a, b). (a - b) ^ 2) (zip x c))"

fun argmin_from :: "nat \<Rightarrow> nat \<Rightarrow> real \<Rightarrow> real list \<Rightarrow> nat" where
  "argmin_from i best m [] = best"
| "argmin_from i best m (d # ds) =
     (if d < m then argmin_from (Suc i) i d ds else argmin_from (Suc i) best m ds)"

definition argmin :: "real list \<Rightarrow> nat" where
  "argmin ds = (case ds of [] \<Rightarrow> 0 | d # rest \<Rightarrow> argmin_from 1 0 d rest)"

definition numeric_row :: "cell list \<Rightarrow> real list option" where
  "numeric_row cs =
     (if list_all (\<lambda>c. case c of Num x \<Rightarrow> True | _ \<Rightarrow> False) cs
      then Some (map (\<lambda>c. case c of Num x \<Rightarrow> x | _ \<Rightarrow> 0) cs) else None)"

definition kmeans_predict ::
  "real list list estimator option \<Rightarrow> cell list list \<Rightarrow> pyerror + nat list" where
  "kmeans_predict model X =
     (case model of
        None \<Rightarrow> Inl AttributeError
      | Some Unfitted \<Rightarrow> Inl NotFittedError
      | Some (Fitted centres) \<Rightarrow>
          if centres = [] \<or> list_ex (\<lambda>r. numeric_row r = None) X then Inl ValueError
          else Inr (map (\<lambda>r. argmin (map (sq_dist (the (numeric_row r))) centres)) X))"

subsection \<open>Classification\<close>

text \<open>\<^verbatim>\<open>prepare_customer_data\<close>, lines 455-489.\<close>

definition prepare_customer_data ::
  "'s seglibs \<Rightarrow> int \<Rightarrow> 's seg_state \<Rightarrow> dataframe \<Rightarrow> pyerror + dataframe \<times> cell list list" where
  "prepare_customer_data env now st df_input =
     (case preprocess env now df_input of
        Inl e \<Rightarrow> Inl e
      | Inr df_processed \<Rightarrow>
          (case segmentation_scaler st of
             None \<Rightarrow> Inl AttributeError
           | Some Unfitted \<Rightarrow> Inl NotFittedError
           | Some (Fitted s) \<Rightarrow>
               (case scaler_transform env s (feature_rows df_processed) of
                  Inl e \<Rightarrow> Inl e
                | Inr scaled \<Rightarrow> Inr (df_processed, scaled))))"

text \<open>The loop of lines 558-561: the first exception that leaves
  \<^verbatim>\<open>apply_fuzzy_segmentation\<close> ends it.\<close>

fun fuzzy_rows ::
  "'s seglibs \<Rightarrow> (string \<rightharpoonup> cell) list \<Rightarrow> pyerror + (cell \<times> string) list" where
  "fuzzy_rows env [] = Inr []"
| "fuzzy_rows env (r # rs) =
     (case apply_fuzzy_segmentation env r of
        Inl e \<Rightarrow> Inl e
      | Inr p \<Rightarrow> (case fuzzy_rows env rs of Inl e \<Rightarrow> Inl e | Inr ps \<Rightarrow> Inr (p # ps)))"

text \<open>Lines 569-577: a missing value becomes \<^verbatim>\<open>None\<close> in the response.\<close>

definition jsonable :: "cell \<Rightarrow> cell" where
  "jsonable c = (if isna c then PyNone else c)"

text \<open>Lines 553-555: the result columns, with their initial values.\<close>

definition init_result_columns :: "dataframe \<Rightarrow> dataframe" where
  "init_result_columns df =
     set_col_scalar
       (set_col_scalar
          (set_col_scalar df ''promotional_segment_score'' NaN)
          ''promotional_segment_category'' (Str ''Unknown''))
       ''cluster_label'' (Num (- 1))"

text \<open>Lines 560-561 over all rows, and line 564: the results written into the frame.\<close>

definition write_results :: "dataframe \<Rightarrow> (cell \<times> string) list \<Rightarrow> nat list \<Rightarrow> dataframe" where
  "write_results df ps labels =
     set_col
       (set_col
          (set_col df ''promotional_segment_score'' (map fst ps))
          ''promotional_segment_category'' (map (\<lambda>p. Str (snd p)) ps))
       ''cluster_label'' (map (\<lambda>k. Num (of_nat k)) labels)"

text \<open>Lines 549-581, the part of \<^verbatim>\<open>segment_customers\<close> after the initialisation check.\<close>

definition classify_batch ::
  "'s seglibs \<Rightarrow> int \<Rightarrow> 's seg_state \<Rightarrow> dataframe \<Rightarrow> pyerror + (string \<rightharpoonup> cell) list" where
  "classify_batch env now st df_input =
     (case prepare_customer_data env now st df_input of
        Inl e \<Rightarrow> Inl e
      | Inr (df_processed, scaled) \<Rightarrow>
          (case fuzzy_rows env (to_records (init_result_columns df_processed)) of
             Inl e \<Rightarrow> Inl e
           | Inr ps \<Rightarrow>
               (case kmeans_predict (segmentation_kmeans st) scaled of
                  Inl e \<Rightarrow> Inl e
                | Inr labels \<Rightarrow>
                    if length labels \<noteq> n_rows df_processed then Inl ValueError
                    else Inr (map (\<lambda>r. \<lambda>name. map_option jsonable (r name))
                                  (to_records
                                     (write_results (init_result_columns df_processed)
                                        ps labels))))))"

text \<open>
  An upload: the request has no file part, or a file part with its name and what
  \<^verbatim>\<open>pd.read_csv\<close> makes of its content (a frame, or an exception).
\<close>

datatype upload = NoFilePart | FilePart string "pyerror + dataframe"

datatype seg_response =
    Seg400 string | Seg500 string | SegInternal pyerror | Seg200 "(string \<rightharpoonup> cell) list"

text \<open>
  \<^verbatim>\<open>segment_customers\<close>, lines 524-585. \<open>now_init\<close> and \<open>now\<close> are the two readings of
  the clock, in \<^verbatim>\<open>initialize_segmentation_models\<close> and in \<^verbatim>\<open>prepare_customer_data\<close>.
\<close>

definition segment_customers ::
  "'s seglibs \<Rightarrow> int \<Rightarrow> int \<Rightarrow> 's seg_state \<Rightarrow> upload \<Rightarrow> 's seg_state \<times> seg_response" where
  "segment_customers env now_init now st req =
     (case req of
        NoFilePart \<Rightarrow> (st, Seg400 ''No file part in the request'')
      | FilePart filename parsed \<Rightarrow>
          if filename = [] then (st, Seg400 ''No selected file'')
          else (case parsed of
                  Inl e \<Rightarrow> (st, SegInternal e)
                | Inr df_input \<Rightarrow>
                    let (st1, ok) =
                          (if \<not> segmentation_initialized st
                           then initialize_segmentation_models env now_init st df_input
                           else (st, True))
                    in if \<not> ok then (st1, Seg500 ''Failed to initialize segmentation models'')
                       else (case classify_batch env now st1 df_input of
                               Inl e \<Rightarrow> (st1, SegInternal e)
                             | Inr result \<Rightarrow> (st1, Seg200 result))))"

datatype init_response =
    Init400 string | Init500 string | InitInternal pyerror | InitOk nat

text \<open>\<^verbatim>\<open>initialize_segmentation\<close>, lines 587-614.\<close>

definition initialize_segmentation ::
  "'s seglibs \<Rightarrow> int \<Rightarrow> 's seg_state \<Rightarrow> upload \<Rightarrow> 's seg_state \<times> init_response" where
  "initialize_segmentation env now st req =
     (case req of
        NoFilePart \<Rightarrow> (st, Init400 ''No file part in the request'')
      | FilePart filename parsed \<Rightarrow>
          if filename = [] then (st, Init400 ''No selected file'')
          else (case parsed of
                  Inl e \<Rightarrow> (st, InitInternal e)
                | Inr df_training \<Rightarrow>
                    let (st1, ok) = initialize_segmentation_models env now st df_training
                    in if ok then (st1, InitOk (n_rows df_training))
                       else (st1, Init500 ''Failed to initialize models'')))"

text \<open>The states of the process: it starts with the globals of lines 338-340 and changes
  them only through the two endpoints.\<close>

inductive reachable :: "'s seglibs \<Rightarrow> 's seg_state \<Rightarrow> bool" for env :: "'s seglibs" where
  start: "reachable env initial_state"
| classify: "reachable env st \<Longrightarrow>
     reachable env (fst (segment_customers env now_init now st req))"
| initialize: "reachable env st \<Longrightarrow>
     reachable env (fst (initialize_segmentation env now st req))"

section \<open>Forecast adapter (forecast/app.py, lines 175-301)\<close>

text \<open>
  pandas, the Prophet model and the formatting of a date are external collaborators:
  \<open>parse_month\<close> is \<^verbatim>\<open>pd.to_datetime(month + '-01')\<close> on one value,
  \<open>prophet_fit\<close> is \<^verbatim>\<open>model.fit\<close> on the dated series, \<open>prophet_predict\<close> is
  \<^verbatim>\<open>make_future_dataframe\<close> followed by \<^verbatim>\<open>predict\<close>, and \<open>format_month\<close> is
  \<^verbatim>\<open>strftime('%Y-%m')\<close>. Each of the first three may raise.

  \<open>data_frame\<close> is \<^verbatim>\<open>pd.DataFrame(monthly_data)\<close> on a value that is not a list of
  objects (an object of columns, say), and \<open>select_other\<close> is \<^verbatim>\<open>df[forecast_type]\<close>
  for a \<open>type\<close> field of the request that is not a string; both may raise.
\<close>

text \<open>A cell of the frame: a JSON value of the request, or a date of the column
  \<open>ds\<close> that line 209 adds.\<close>

datatype fcell = J json | Stamp int

record forecast_row =
  fr_ds :: int
  fr_yhat :: npfloat
  fr_trend :: npfloat
  fr_yhat_lower :: npfloat
  fr_yhat_upper :: npfloat

record 'm fclibs =
  data_frame :: "json \<Rightarrow> pyerror + (string \<rightharpoonup> json list)"
  select_other :: "(string \<rightharpoonup> fcell list) \<Rightarrow> json \<Rightarrow> pyerror + fcell list"
  parse_month :: "json \<Rightarrow> pyerror + int"
  prophet_fit :: "(int \<times> fcell) list \<Rightarrow> pyerror + 'm"
  prophet_predict :: "'m \<Rightarrow> int \<Rightarrow> pyerror + forecast_row list"
  format_month :: "int \<Rightarrow> string"

record point =
  pt_month :: json
  pt_value :: npfloat
  pt_type :: string
  pt_trend :: npfloat
  pt_lower :: npfloat
  pt_upper :: npfloat

record metrics =
  mape :: npfloat
  mae :: npfloat
  rmse :: npfloat

text \<open>
  The responses of \<^verbatim>\<open>/forecast\<close>: a 400 with its message and its \<open>historical\<close>
  field, the 500 of the outer \<^verbatim>\<open>except\<close> clause, or the 200 with the historical points,
  the forecast points and the metrics.
\<close>

datatype fc_response =
    Fc400 string json
  | Fc500 pyerror
  | Fc200 "point list" "point list" metrics

text \<open>The calls to the model that a request makes, in their order.\<close>

datatype fc_event = ModelFit | ModelPredict

text \<open>A field of a sample; a sample that is not an object has none.\<close>

definition sample_field :: "json \<Rightarrow> string \<Rightarrow> json option" where
  "sample_field sample name = (case sample of JObj kvs \<Rightarrow> map_of kvs name | _ \<Rightarrow> None)"

text \<open>
  \<^verbatim>\<open>pd.DataFrame(monthly_data)\<close>, line 208. For a list of objects, a column exists when
  one sample has the field, and a sample without the field has the missing value in it.
\<close>

definition records_frame :: "json list \<Rightarrow> (string \<rightharpoonup> json list)" where
  "records_frame samples name =
     (if list_ex (\<lambda>s. sample_field s name \<noteq> None) samples
      then Some (map (\<lambda>s. case sample_field s name of None \<Rightarrow> JNull | Some v \<Rightarrow> v) samples)
      else None)"

definition make_frame :: "'m fclibs \<Rightarrow> json \<Rightarrow> pyerror + (string \<rightharpoonup> json list)" where
  "make_frame env monthly_data =
     (case monthly_data of
        JArr samples \<Rightarrow>
          if list_all is_object samples then Inr (records_frame samples)
          else data_frame env monthly_data
      | _ \<Rightarrow> data_frame env monthly_data)"

text \<open>\<^verbatim>\<open>df[name]\<close>: KeyError on an absent column.\<close>

definition frame_column :: "(string \<rightharpoonup> 'a list) \<Rightarrow> string \<Rightarrow> pyerror + 'a list" where
  "frame_column df name = (case df name of None \<Rightarrow> Inl KeyError | Some vs \<Rightarrow> Inr vs)"

fun parse_months :: "'m fclibs \<Rightarrow> json list \<Rightarrow> pyerror + int list" where
  "parse_months env [] = Inr []"
| "parse_months env (m # ms) =
     (case parse_month env m of
        Inl e \<Rightarrow> Inl e
      | Inr t \<Rightarrow> (case parse_months env ms of Inl e \<Rightarrow> Inl e | Inr ts \<Rightarrow> Inr (t # ts)))"

text \<open>Line 209, \<^verbatim>\<open>df['ds'] = ...\<close>: the frame has the dates as its column \<open>ds\<close> from
  here on, also when the request had a field of that name.\<close>

definition assign_ds :: "(string \<rightharpoonup> json list) \<Rightarrow> int list \<Rightarrow> (string \<rightharpoonup> fcell list)" where
  "assign_ds df dates = (map_option (map J) \<circ> df)(''ds'' \<mapsto> map Stamp dates)"

text \<open>\<^verbatim>\<open>df[forecast_type]\<close>, line 215.\<close>

definition select_column ::
  "'m fclibs \<Rightarrow> (string \<rightharpoonup> fcell list) \<Rightarrow> json \<Rightarrow> pyerror + fcell list" where
  "select_column env df forecast_type =
     (case forecast_type of
        JStr name \<Rightarrow> frame_column df name
      | _ \<Rightarrow> select_other env df forecast_type)"

text \<open>\<^verbatim>\<open>float(row[forecast_type])\<close>, line 247: a number, a missing value (NaN in a
  column of numbers), or a string that is a float literal. An integer too large for a
  float is refused with an OverflowError and a date with a TypeError.\<close>

definition int_float :: "int \<Rightarrow> pyerror + npfloat" where
  "int_float n = (case overflow (of_int n) of Fin x \<Rightarrow> Inr (Fin x) | _ \<Rightarrow> Inl OverflowError)"

definition json_float :: "fcell \<Rightarrow> pyerror + npfloat" where
  "json_float c =
     (case c of
        Stamp t \<Rightarrow> Inl TypeError
      | J j \<Rightarrow>
          (case j of
             JInt n \<Rightarrow> int_float n
           | JReal r \<Rightarrow> Inr (overflow r)
           | JBool b \<Rightarrow> Inr (Fin (if b then 1 else 0))
           | JNull \<Rightarrow> Inr NaNf
           | JNaN \<Rightarrow> Inr NaNf
           | JStr s \<Rightarrow> (case float_of_string s of None \<Rightarrow> Inl ValueError | Some x \<Rightarrow> Inr x)
           | _ \<Rightarrow> Inl TypeError))"

text \<open>An entry of \<^verbatim>\<open>df[forecast_type].values\<close> in the arithmetic of the metrics, lines
  268-272 and 287: a number or a missing value; anything else, a string too, is refused
  with a TypeError.\<close>

definition np_value :: "fcell \<Rightarrow> pyerror + npfloat" where
  "np_value c =
     (case c of
        Stamp t \<Rightarrow> Inl TypeError
      | J j \<Rightarrow>
          (case j of
             JInt n \<Rightarrow> int_float n
           | JReal r \<Rightarrow> Inr (overflow r)
           | JBool b \<Rightarrow> Inr (Fin (if b then 1 else 0))
           | JNull \<Rightarrow> Inr NaNf
           | JNaN \<Rightarrow> Inr NaNf
           | _ \<Rightarrow> Inl TypeError))"

fun np_values :: "fcell list \<Rightarrow> pyerror + npfloat list" where
  "np_values [] = Inr []"
| "np_values (c # cs) =
     (case np_value c of
        Inl e \<Rightarrow> Inl e
      | Inr x \<Rightarrow> (case np_values cs of Inl e \<Rightarrow> Inl e | Inr xs \<Rightarrow> Inr (x # xs)))"

text \<open>Lines 241-252: a historical point for every sample whose date is among the
  predictions for the historical range.\<close>

fun format_historical ::
  "forecast_row list \<Rightarrow> (int \<times> json \<times> fcell) list \<Rightarrow> pyerror + point list" where
  "format_historical hist [] = Inr []"
| "format_historical hist ((t, month, y) # rows) =
     (case filter (\<lambda>r. fr_ds r = t) hist of
        [] \<Rightarrow> format_historical hist rows
      | r # _ \<Rightarrow>
          (case json_float y of
             Inl e \<Rightarrow> Inl e
           | Inr v \<Rightarrow>
               (case format_historical hist rows of
                  Inl e \<Rightarrow> Inl e
                | Inr pts \<Rightarrow>
                    Inr (\<lparr>pt_month = month, pt_value = v, pt_type = ''historical'',
                          pt_trend = fr_trend r, pt_lower = fr_yhat_lower r,
                          pt_upper = fr_yhat_upper r\<rparr> # pts))))"

text \<open>Lines 255-265.\<close>

definition format_forecast :: "'m fclibs \<Rightarrow> forecast_row list \<Rightarrow> point list" where
  "format_forecast env future =
     map (\<lambda>r. \<lparr>pt_month = JStr (format_month env (fr_ds r)), pt_value = fr_yhat r,
               pt_type = ''forecast'', pt_trend = fr_trend r, pt_lower = fr_yhat_lower r,
               pt_upper = fr_yhat_upper r\<rparr>) future"

text \<open>
  Lines 267-272 and 284-288. The MAPE is computed only when some actual value differs
  from zero (\<^verbatim>\<open>np.any(actuals != 0)\<close>; NaN differs from zero) and is the constant 0
  otherwise.
\<close>

definition compute_metrics :: "npfloat list \<Rightarrow> npfloat list \<Rightarrow> pyerror + metrics" where
  "compute_metrics actuals predictions =
     (case (if list_ex (\<lambda>a. a \<noteq> Fin 0) actuals
            then (case broadcast2 np_sub actuals predictions of
                    Inl e \<Rightarrow> Inl e
                  | Inr errs \<Rightarrow>
                      (case broadcast2 np_div errs actuals of
                         Inl e \<Rightarrow> Inl e
                       | Inr rel \<Rightarrow> Inr (np_mul (np_mean (map np_abs rel)) (Fin 100))))
            else Inr (Fin 0)) of
        Inl e \<Rightarrow> Inl e
      | Inr mape_value \<Rightarrow>
          (case broadcast2 np_sub actuals predictions of
             Inl e \<Rightarrow> Inl e
           | Inr errs \<Rightarrow>
               Inr \<lparr>mape = mape_value,
                    mae = np_mean (map np_abs errs),
                    rmse = np_sqrt (np_mean (map (\<lambda>d. np_mul d d) errs))\<rparr>))"

text \<open>Lines 207-293, the part of \<^verbatim>\<open>forecast\<close> after the validation.\<close>

definition fit_and_respond ::
  "'m fclibs \<Rightarrow> json \<Rightarrow> int \<Rightarrow> json \<Rightarrow> fc_response \<times> fc_event list" where
  "fit_and_respond env monthly_data periods forecast_type =
     (case make_frame env monthly_data of
        Inl e \<Rightarrow> (Fc500 e, [])
      | Inr df \<Rightarrow>
     (case frame_column df ''month'' of
        Inl e \<Rightarrow> (Fc500 e, [])
      | Inr months \<Rightarrow>
     (case parse_months env months of
        Inl e \<Rightarrow> (Fc500 e, [])
      | Inr dates \<Rightarrow>
     (case select_column env (assign_ds df dates) forecast_type of
        Inl e \<Rightarrow> (Fc500 e, [])
      | Inr ys \<Rightarrow>
          let rows = sort_key fst (zip dates (zip months ys));
              series = map (\<lambda>(t, month, y). (t, y)) rows
          in
     (case prophet_fit env series of
        Inl e \<Rightarrow> (Fc500 e, [ModelFit])
      | Inr model \<Rightarrow>
     (case prophet_predict env model periods of
        Inl e \<Rightarrow> (Fc500 e, [ModelFit, ModelPredict])
      | Inr prediction \<Rightarrow>
          let historical_count = length series;
              historical_forecast = take historical_count prediction;
              future_forecast = drop historical_count prediction
          in
     (case format_historical historical_forecast rows of
        Inl e \<Rightarrow> (Fc500 e, [ModelFit, ModelPredict])
      | Inr historical \<Rightarrow>
     (case np_values (map snd series) of
        Inl e \<Rightarrow> (Fc500 e, [ModelFit, ModelPredict])
      | Inr actuals \<Rightarrow>
     (case compute_metrics actuals (map fr_yhat historical_forecast) of
        Inl e \<Rightarrow> (Fc500 e, [ModelFit, ModelPredict])
      | Inr m \<Rightarrow>
          (Fc200 historical (format_forecast env future_forecast) m,
           [ModelFit, ModelPredict]))))))))))"

text \<open>
  \<^verbatim>\<open>forecast\<close>, lines 175-301. The argument is what \<^verbatim>\<open>request.json\<close> gives: the parsed
  body, or the exception it raises for a body that is not JSON.
\<close>

definition forecast :: "'m fclibs \<Rightarrow> pyerror + json \<Rightarrow> fc_response \<times> fc_event list" where
  "forecast env body =
     (case body of
        Inl e \<Rightarrow> (Fc500 e, [])
      | Inr data \<Rightarrow>
          if \<not> truthy data then (Fc400 ''No data provided'' (JArr []), [])
          else
            (case dict_get data ''monthlyData'' (JArr []) of
               Inl e \<Rightarrow> (Fc500 e, [])
             | Inr monthly_data \<Rightarrow>
            (case dict_get data ''periods'' (JInt 6) of
               Inl e \<Rightarrow> (Fc500 e, [])
             | Inr p \<Rightarrow>
            (case py_int p of
               Inl e \<Rightarrow> (Fc500 e, [])
             | Inr periods \<Rightarrow>
            (case dict_get data ''type'' (JStr ''revenue'') of
               Inl e \<Rightarrow> (Fc500 e, [])
             | Inr forecast_type \<Rightarrow>
            (case py_len monthly_data of
               Inl e \<Rightarrow> (Fc500 e, [])
             | Inr n \<Rightarrow>
                 if n < 3
                 then (Fc400 ''Insufficient data. Need at least 3 months of historical data.''
                         monthly_data, [])
                 else fit_and_respond env monthly_data periods forecast_type))))))"

section \<open>Phone normalizer (forecast/app.py, lines 88-164)\<close>

text \<open>
  The phonenumbers library is an external collaborator. \<open>pn_parse number region\<close> is
  \<^verbatim>\<open>phonenumbers.parse(number, region)\<close>, with \<open>None\<close> for the region \<^verbatim>\<open>None\<close> and
  \<open>None\<close> as result when it raises NumberParseException; \<open>'p\<close> is the type of a parsed
  number.
\<close>

record 'p phonelib =
  pn_parse :: "string \<Rightarrow> string option \<Rightarrow> 'p option"
  pn_is_valid_number :: "'p \<Rightarrow> bool"
  pn_format_e164 :: "'p \<Rightarrow> string"

text \<open>One attempt of the function: parse, check, format; a parse error is skipped.\<close>

definition try_parse :: "'p phonelib \<Rightarrow> string \<Rightarrow> string option \<Rightarrow> string option" where
  "try_parse lib number region =
     (case pn_parse lib number region of
        None \<Rightarrow> None
      | Some parsed \<Rightarrow>
          if pn_is_valid_number lib parsed then Some (pn_format_e164 lib parsed) else None)"

text \<open>Line 97: the white space around the number, and every blank, hyphen,
  parenthesis and full stop in it, are removed.\<close>

definition clean_phone :: "string \<Rightarrow> string" where
  "clean_phone phone = filter (\<lambda>c. c \<notin> set '' -().'') (strip phone)"

definition country_codes :: "(string \<times> string) list" where
  "country_codes =
     [(''IN'', ''+91''), (''US'', ''+1''), (''GB'', ''+44''), (''AU'', ''+61''),
      (''DE'', ''+49'')]"

definition fallback_regions :: "string list" where
  "fallback_regions =
     [''IN'', ''GB'', ''AU'', ''CA'', ''DE'', ''FR'', ''IT'', ''ES'', ''BR'', ''MX'']"

text \<open>The loop of lines 138-144: the first number of the list that is valid.\<close>

fun first_valid :: "'p phonelib \<Rightarrow> string list \<Rightarrow> string option" where
  "first_valid lib [] = None"
| "first_valid lib (number # numbers) =
     (case try_parse lib number None of
        Some r \<Rightarrow> Some r
      | None \<Rightarrow> first_valid lib numbers)"

text \<open>The loop of lines 156-162: the first region in which the number is valid.\<close>

fun first_region :: "'p phonelib \<Rightarrow> string \<Rightarrow> string list \<Rightarrow> string option" where
  "first_region lib phone [] = None"
| "first_region lib phone (region # regions) =
     (case try_parse lib phone (Some region) of
        Some r \<Rightarrow> Some r
      | None \<Rightarrow> first_region lib phone regions)"

definition format_phone_number :: "'p phonelib \<Rightarrow> string \<Rightarrow> string \<Rightarrow> string option" where
  "format_phone_number lib raw default_region =
     (if raw = [] then None
      else
        let phone = clean_phone raw in
        (case (if take 1 phone = ''+'' then try_parse lib phone None else None) of
           Some r \<Rightarrow> Some r
         | None \<Rightarrow>
        (case try_parse lib phone (Some default_region) of
           Some r \<Rightarrow> Some r
         | None \<Rightarrow>
        (case (if length phone = 10 \<and> list_all py_isdigit phone
               then (case (if hd phone \<in> set ''6789''
                           then try_parse lib (''+91'' @ phone) None else None) of
                       Some r \<Rightarrow> Some r
                     | None \<Rightarrow>
                         first_valid lib (map (\<lambda>(region, code). code @ phone) country_codes))
               else None) of
           Some r \<Rightarrow> Some r
         | None \<Rightarrow>
        (case (if length phone = 10 \<and> list_all py_isdigit phone
               then try_parse lib phone (Some ''IN'') else None) of
           Some r \<Rightarrow> Some r
         | None \<Rightarrow> first_region lib phone fallback_regions)))))"

section \<open>Messaging dispatcher (forecast/app.py, lines 616-772)\<close>

text \<open>
  What the handler reads of an exception: its text, the name of its class, and the
  attributes \<^verbatim>\<open>msg\<close> and \<^verbatim>\<open>code\<close> when it has them.
\<close>

record exc_info =
  exc_text :: string
  exc_type :: string
  exc_msg :: "string option"
  exc_code :: "string option"

record twilio_message =
  sid :: string
  message_status :: string

text \<open>
  The configuration of the process and its collaborators: the Twilio client, absent
  when the credentials are, with its \<^verbatim>\<open>messages.create(body, from_, to)\<close> (the first
  argument counts the calls made before, since the provider may answer the same call
  differently); the sender; the phone library; Python's \<^verbatim>\<open>str\<close> on a JSON value that
  is not a string; and the exception that Python raises for \<^verbatim>\<open>message[:50]\<close> on a
  value that cannot be sliced.
\<close>

record 'p dispatch_env =
  twilio_client :: "(nat \<Rightarrow> json \<Rightarrow> string \<Rightarrow> string \<Rightarrow> exc_info + twilio_message) option"
  TWILIO_WHATSAPP_FROM :: "string option"
  phone_lib :: "'p phonelib"
  py_str :: "json \<Rightarrow> string"
  slice_exception :: "json \<Rightarrow> exc_info"

definition str_of :: "'p dispatch_env \<Rightarrow> json \<Rightarrow> string" where
  "str_of env j = (case j of JStr s \<Rightarrow> s | _ \<Rightarrow> py_str env j)"

record dispatch_result =
  res_phone :: json
  res_formatted_phone :: "string option"
  res_customer_name :: json
  res_success :: bool
  res_error :: "string option"
  res_error_type :: "string option"
  res_message_id :: "string option"
  res_status :: "string option"

definition failure :: "json \<Rightarrow> json \<Rightarrow> string \<Rightarrow> string option \<Rightarrow> dispatch_result" where
  "failure phone customer_name error_msg error_type =
     \<lparr>res_phone = phone, res_formatted_phone = None, res_customer_name = customer_name,
      res_success = False, res_error = Some error_msg, res_error_type = error_type,
      res_message_id = None, res_status = None\<rparr>"

text \<open>Lines 733-750: the entry for an exception inside the \<^verbatim>\<open>try\<close> block.\<close>

definition exception_entry :: "json \<Rightarrow> json \<Rightarrow> exc_info \<Rightarrow> dispatch_result" where
  "exception_entry phone customer_name e =
     failure phone customer_name
       (exc_text e
          @ (case exc_msg e of None \<Rightarrow> [] | Some m \<Rightarrow> '' - '' @ m)
          @ (case exc_code e of None \<Rightarrow> [] | Some c \<Rightarrow> '' (Code: '' @ c @ '')''))
       (Some (exc_type e))"

text \<open>
  \<^verbatim>\<open>message[:50]\<close> in the log line 710 works on a string and on a list and raises on
  every other value; the exception is caught like one of the provider.
\<close>

definition sliceable :: "json \<Rightarrow> bool" where
  "sliceable message = (case message of JStr s \<Rightarrow> True | JArr xs \<Rightarrow> True | _ \<Rightarrow> False)"

text \<open>
  One pass of the loop body, lines 672-750, for a recipient that is an object: the entry
  it appends and the number of provider calls made so far.
\<close>

definition dispatch_one ::
  "'p dispatch_env \<Rightarrow> (nat \<Rightarrow> json \<Rightarrow> string \<Rightarrow> string \<Rightarrow> exc_info + twilio_message) \<Rightarrow>
   string \<Rightarrow> nat \<Rightarrow> (string \<times> json) list \<Rightarrow> dispatch_result \<times> nat" where
  "dispatch_one env create sender calls recipient =
     (let phone = (case map_of recipient ''phone'' of None \<Rightarrow> JNull | Some v \<Rightarrow> v);
          message = (case map_of recipient ''message'' of None \<Rightarrow> JNull | Some v \<Rightarrow> v);
          customer_name =
            (case map_of recipient ''customerName'' of
               None \<Rightarrow> JStr ''Customer'' | Some v \<Rightarrow> v)
      in if \<not> truthy phone \<or> \<not> truthy message
         then (failure phone customer_name ''Missing phone or message'' None, calls)
         else
           (case format_phone_number (phone_lib env) (str_of env phone) ''US'' of
              None \<Rightarrow>
                (failure phone customer_name
                   (''Invalid phone number format: '' @ str_of env phone) None, calls)
            | Some formatted_phone \<Rightarrow>
                if formatted_phone = []
                then (failure phone customer_name
                        (''Invalid phone number format: '' @ str_of env phone) None, calls)
                else if \<not> sliceable message
                then (exception_entry phone customer_name (slice_exception env message), calls)
                else
                  (case create calls message sender (''whatsapp:'' @ formatted_phone) of
                     Inl e \<Rightarrow> (exception_entry phone customer_name e, Suc calls)
                   | Inr twilio_message \<Rightarrow>
                       (\<lparr>res_phone = phone,
                         res_formatted_phone = Some formatted_phone,
                         res_customer_name = customer_name, res_success = True,
                         res_error = None, res_error_type = None,
                         res_message_id = Some (sid twilio_message),
                         res_status = Some (message_status twilio_message)\<rparr>,
                        Suc calls))))"

text \<open>
  The loop of lines 671-750. \<^verbatim>\<open>recipient.get\<close> stands outside the \<^verbatim>\<open>try\<close> block: a
  recipient that is not an object raises AttributeError, which ends the loop.
\<close>

fun dispatch_all ::
  "'p dispatch_env \<Rightarrow> (nat \<Rightarrow> json \<Rightarrow> string \<Rightarrow> string \<Rightarrow> exc_info + twilio_message) \<Rightarrow>
   string \<Rightarrow> nat \<Rightarrow> json list \<Rightarrow> pyerror + dispatch_result list" where
  "dispatch_all env create sender calls [] = Inr []"
| "dispatch_all env create sender calls (recipient # rest) =
     (case recipient of
        JObj kvs \<Rightarrow>
          (case dispatch_one env create sender calls kvs of
             (entry, calls') \<Rightarrow>
               (case dispatch_all env create sender calls' rest of
                  Inl e \<Rightarrow> Inl e
                | Inr entries \<Rightarrow> Inr (entry # entries)))
      | _ \<Rightarrow> Inl AttributeError)"

text \<open>
  The responses of \<^verbatim>\<open>/whatsapp/send\<close>: a 400 or a 500 with its message, the 500 of the
  outer handler, or the report with \<open>total\<close>, \<open>sent\<close>, \<open>failed\<close> and \<open>results\<close>.
\<close>

datatype wa_response =
    Wa400 string
  | Wa500 string
  | WaInternal pyerror
  | Wa200 int int int "dispatch_result list"

text \<open>Iterating over a value: a list gives its elements, a string its characters and
  an object its keys.\<close>

definition py_iter :: "json \<Rightarrow> pyerror + json list" where
  "py_iter j =
     (case j of
        JArr xs \<Rightarrow> Inr xs
      | JStr s \<Rightarrow> Inr (map (\<lambda>c. JStr [c]) s)
      | JObj kvs \<Rightarrow> Inr (map (\<lambda>(k, v). JStr k) kvs)
      | _ \<Rightarrow> Inl TypeError)"

definition twilio_not_configured :: string where
  "twilio_not_configured =
     ''Twilio is not configured. Please set TWILIO_ACCOUNT_SID, TWILIO_AUTH_TOKEN, and TWILIO_WHATSAPP_FROM environment variables.''"

definition sender_not_configured :: string where
  "sender_not_configured =
     ''TWILIO_WHATSAPP_FROM is not configured. Please set the WhatsApp sender number in format: whatsapp:+14155238886''"

text \<open>
  \<^verbatim>\<open>send_whatsapp\<close>, lines 616-772. The argument is the body as lines 625-634 read it:
  an exception of the JSON parser of a request declared as JSON, no data, or the data.
\<close>

definition send_whatsapp :: "'p dispatch_env \<Rightarrow> pyerror + json option \<Rightarrow> wa_response" where
  "send_whatsapp env body =
     (case body of
        Inl e \<Rightarrow> WaInternal e
      | Inr None \<Rightarrow> Wa400 ''No data provided''
      | Inr (Some data) \<Rightarrow>
          if \<not> truthy data then Wa400 ''No data provided''
          else
            (case dict_get data ''recipients'' (JArr []) of
               Inl e \<Rightarrow> WaInternal e
             | Inr recipients \<Rightarrow>
                 if \<not> truthy recipients then Wa400 ''No recipients provided''
                 else
                   (case py_len recipients of
                      Inl e \<Rightarrow> WaInternal e
                    | Inr n \<Rightarrow>
                        if n = 0 then Wa400 ''No recipients provided''
                        else
                          (case twilio_client env of
                             None \<Rightarrow> Wa500 twilio_not_configured
                           | Some create \<Rightarrow>
                               (case TWILIO_WHATSAPP_FROM env of
                                  None \<Rightarrow> Wa500 sender_not_configured
                                | Some sender \<Rightarrow>
                                    if sender = [] then Wa500 sender_not_configured
                                    else
                                      (case py_iter recipients of
                                         Inl e \<Rightarrow> WaInternal e
                                       | Inr rs \<Rightarrow>
                                           (case dispatch_all env create sender 0 rs of
                                              Inl e \<Rightarrow> WaInternal e
                                            | Inr results \<Rightarrow>
                                                let success_count =
                                                      int (length (filter res_success results))
                                                in Wa200 (int n) success_count
                                                     (int n - success_count) results)))))))"

section \<open>Repository statistics (Commando-AI/sample.py, lines 37-88)\<close>

text \<open>
  A response of the HTTP client: the status, the headers (looked up without regard to
  case, so the keys here are in lower case) and what \<^verbatim>\<open>resp.json()\<close> gives, a value or
  an exception.
\<close>

record http_response =
  status_code :: nat
  headers :: "string \<rightharpoonup> string"
  body_json :: "pyerror + json"

text \<open>
  The session is the outside world: its answer to the \<open>n\<close>-th request of the run, for
  the URL and the parameters of the request, is a response or an exception of the
  client.
\<close>

type_synonym session = "nat \<Rightarrow> string \<Rightarrow> (string \<times> string) list \<Rightarrow> pyerror + http_response"

text \<open>
  \<^verbatim>\<open>get\<close>, lines 37-50. The loop repeats the request while the answer is a 202 or a
  rate limit, without a bound; the model counts the requests it may still make and is
  \<open>None\<close> when they are used up. A result is the number of requests made so far and the
  response, or the exception that left the function.
\<close>

fun get ::
  "nat \<Rightarrow> session \<Rightarrow> nat \<Rightarrow> string \<Rightarrow> (string \<times> string) list \<Rightarrow>
   (nat \<times> (pyerror + http_response)) option" where
  "get 0 session n url params = None"
| "get (Suc fuel) session n url params =
     (case session n url params of
        Inl e \<Rightarrow> Some (Suc n, Inl e)
      | Inr resp \<Rightarrow>
          if status_code resp = 202 then get fuel session (Suc n) url params
          else if status_code resp = 403 \<and> headers resp ''x-ratelimit-remaining'' = Some ''0''
          then (case headers resp ''x-ratelimit-reset'' of
                  None \<Rightarrow> get fuel session (Suc n) url params
                | Some v \<Rightarrow>
                    (case int_of_string v of
                       None \<Rightarrow> Some (Suc n, Inl ValueError)
                     | Some reset \<Rightarrow> get fuel session (Suc n) url params))
          else if 400 \<le> status_code resp \<and> status_code resp < 600
          then Some (Suc n, Inl HTTPError)
          else Some (Suc n, Inr resp))"

text \<open>Python's \<^verbatim>\<open>sub in s\<close>, \<^verbatim>\<open>s.split(c)\<close>, \<^verbatim>\<open>s.find(c)\<close> and \<^verbatim>\<open>s[start:stop]\<close>.\<close>

fun contains :: "string \<Rightarrow> string \<Rightarrow> bool" where
  "contains sub [] = (sub = [])"
| "contains sub (c # cs) = (take (length sub) (c # cs) = sub \<or> contains sub cs)"

fun split_on :: "char \<Rightarrow> string \<Rightarrow> string list" where
  "split_on sep [] = [[]]"
| "split_on sep (c # cs) =
     (if c = sep then [] # split_on sep cs
      else (case split_on sep cs of
              [] \<Rightarrow> [[c]]
            | p # ps \<Rightarrow> (c # p) # ps))"

fun find_char :: "char \<Rightarrow> string \<Rightarrow> int" where
  "find_char x [] = - 1"
| "find_char x (c # cs) =
     (if c = x then 0 else (let i = find_char x cs in if i < 0 then - 1 else i + 1))"

definition py_slice :: "string \<Rightarrow> int \<Rightarrow> int \<Rightarrow> string" where
  "py_slice s start stop =
     (let n = int (length s);
          clamp = (\<lambda>i. if i < 0 then max 0 (i + n) else min i n);
          a = clamp start;
          b = clamp stop
      in take (nat (b - a)) (drop (nat a) s))"

definition GITHUB_API :: string where
  "GITHUB_API = ''https://api.github.com''"

text \<open>The text \<^verbatim>\<open>rel="last"\<close>; the double quote is the character 0x22.\<close>

definition rel_last :: string where
  "rel_last = ''rel='' @ [CHR 0x22] @ ''last'' @ [CHR 0x22]"

text \<open>\<^verbatim>\<open>int(qs.get(key, [default])[0])\<close> on the parsed query of the last link.\<close>

definition query_int :: "(string \<rightharpoonup> string list) \<Rightarrow> string \<Rightarrow> string \<Rightarrow> pyerror + int" where
  "query_int qs key dflt =
     (case (case qs key of None \<Rightarrow> [dflt] | Some vs \<Rightarrow> vs) of
        [] \<Rightarrow> Inl IndexError
      | v # _ \<Rightarrow> (case int_of_string v of None \<Rightarrow> Inl ValueError | Some n \<Rightarrow> Inr n))"

text \<open>\<^verbatim>\<open>len(resp.json())\<close>.\<close>

definition count_items :: "http_response \<Rightarrow> pyerror + int" where
  "count_items resp =
     (case body_json resp of
        Inl e \<Rightarrow> Inl e
      | Inr j \<Rightarrow> (case py_len j of Inl e \<Rightarrow> Inl e | Inr n \<Rightarrow> Inr (int n)))"

text \<open>Line 80: the text between the first \<open><\<close> and the first \<open>>\<close> of a part of the
  link header.\<close>

definition link_target :: "string \<Rightarrow> string" where
  "link_target part = py_slice part (find_char CHR ''<'' part + 1) (find_char CHR ''>'' part)"

text \<open>
  \<^verbatim>\<open>estimate_commit_count\<close>, lines 71-88. \<open>parse_query\<close> is
  \<^verbatim>\<open>parse_qs(urlparse(url).query)\<close> of the standard library.
\<close>

definition estimate_commit_count ::
  "(string \<Rightarrow> (string \<rightharpoonup> string list)) \<Rightarrow> nat \<Rightarrow> session \<Rightarrow> nat \<Rightarrow>
   string \<Rightarrow> string \<Rightarrow> string \<Rightarrow> (nat \<times> (pyerror + int)) option" where
  "estimate_commit_count parse_query fuel session n owner repo branch =
     (case get fuel session n (GITHUB_API @ ''/repos/'' @ owner @ ''/'' @ repo @ ''/commits'')
             [(''sha'', branch), (''per_page'', ''1'')] of
        None \<Rightarrow> None
      | Some (n1, Inl e) \<Rightarrow> Some (n1, Inl e)
      | Some (n1, Inr resp) \<Rightarrow>
          if status_code resp = 204 then Some (n1, Inr 0)
          else
            (case (case headers resp ''link'' of
                     None \<Rightarrow> None
                   | Some link \<Rightarrow> find (contains rel_last) (split_on CHR '','' link)) of
               None \<Rightarrow> Some (n1, count_items resp)
             | Some part \<Rightarrow>
                 let last_url = link_target part;
                     qs = parse_query last_url
                 in (case query_int qs ''page'' ''1'' of
                       Inl e \<Rightarrow> Some (n1, Inl e)
                     | Inr last_page \<Rightarrow>
                    (case query_int qs ''per_page'' ''30'' of
                       Inl e \<Rightarrow> Some (n1, Inl e)
                     | Inr per_page \<Rightarrow>
                    (case get fuel session n1 last_url [] of
                       None \<Rightarrow> None
                     | Some (n2, Inl e) \<Rightarrow> Some (n2, Inl e)
                     | Some (n2, Inr last_page_resp) \<Rightarrow>
                         (case count_items last_page_resp of
                            Inl e \<Rightarrow> Some (n2, Inl e)
                          | Inr k \<Rightarrow> Some (n2, Inr ((last_page - 1) * per_page + k))))))))"

section \<open>Sample data\<close>

text \<open>
  Stand-ins for the libraries, to run the model on concrete batches: a date parser that
  accepts the timestamps of the sample frames and one date written with a time zone,
  which makes the parsed column timezone-aware; a scaler that leaves the features as
  they are; a k-means fit that refuses fewer samples than clusters and values that are
  not numbers (as scikit-learn does) and takes the first \<open>k\<close> samples as centres; and a
  fuzzy simulation that answers NaN outside the universes.
\<close>

definition zoned_date :: cell where
  "zoned_date = Str ''2024-01-01T00:00:00Z''"

definition demo_stamp :: "cell \<Rightarrow> int option" where
  "demo_stamp c =
     (case c of
        Ts t \<Rightarrow> Some t
      | _ \<Rightarrow> if c = zoned_date then Some (19723 * ns_per_day) else None)"

definition demo_libs :: "unit seglibs" where
  "demo_libs =
     \<lparr>to_datetime =
        (\<lambda>cs. Inr \<lparr>tz_aware = (zoned_date \<in> set cs),
                     stamp = (\<lambda>i. if i < length cs then demo_stamp (cs ! i) else None)\<rparr>),
      scaler_fit = (\<lambda>X. if X = [] then Inl ValueError else Inr ()),
      scaler_transform = (\<lambda>s X. Inr X),
      kmeans_fit = (\<lambda>k X. if length X < k \<or> list_ex (\<lambda>r. numeric_row r = None) X
                            then Inl ValueError
                            else Inr (map (\<lambda>r. the (numeric_row r)) (take k X))),
      simulate_other = (\<lambda>xs. Inr None)\<rparr>"

definition demo_now :: int where
  "demo_now = 1000 * ns_per_day"

text \<open>Four customers; the last one has no total and no purchase date.\<close>

definition demo_frame :: dataframe where
  "demo_frame =
     \<lparr>n_rows = 4,
      columns =
        [''total_spent'' \<mapsto> [Num 4800, Num 200, Num 2500, NaN],
         ''intent_score'' \<mapsto> [Num (95 / 100), Num (1 / 10), Num (6 / 10), Num (2 / 10)],
         ''touchpoints_count'' \<mapsto> [Num 18, Num 2, Num 12, Num 1],
         ''last_purchase_date'' \<mapsto>
            [Ts (990 * ns_per_day), Ts (300 * ns_per_day), Ts (600 * ns_per_day),
             Str ''n/a'']]\<rparr>"

text \<open>The same batch after the preprocessing.\<close>

definition demo_processed :: dataframe where
  "demo_processed =
     \<lparr>n_rows = 4,
      columns =
        [''total_spent'' \<mapsto> [Num 4800, Num 200, Num 2500, NaN],
         ''intent_score'' \<mapsto> [Num (95 / 100), Num (1 / 10), Num (6 / 10), Num (2 / 10)],
         ''touchpoints_count'' \<mapsto> [Num 18, Num 2, Num 12, Num 1],
         ''last_purchase_date'' \<mapsto>
            [Ts (990 * ns_per_day), Ts (300 * ns_per_day), Ts (600 * ns_per_day),
             Str ''n/a''],
         ''last_purchase_date'' \<mapsto>
            [Ts (990 * ns_per_day), Ts (300 * ns_per_day), Ts (600 * ns_per_day), NaT],
         ''total_spent'' \<mapsto> [Num 4800, Num 200, Num 2500, Num 0],
         ''recency'' \<mapsto> [Num 10, Num 700, Num 400, Num 730]]\<rparr>"

definition demo_centres :: "real list list" where
  "demo_centres =
     [[4800, 95 / 100, 18, 10], [200, 1 / 10, 2, 700], [2500, 6 / 10, 12, 400],
      [0, 2 / 10, 1, 730]]"

definition demo_state :: "unit seg_state" where
  "demo_state =
     \<lparr>segmentation_scaler = Some (Fitted ()),
      segmentation_kmeans = Some (Fitted demo_centres),
      segmentation_initialized = True\<rparr>"

text \<open>The crisp inputs of the first customer of the sample batch.\<close>

definition high_value_input :: sim_input where
  "high_value_input =
     \<lparr>in_total_spent = 4800, in_intent_score = 95 / 100, in_touchpoints_count = 18,
      in_recency = 10\<rparr>"

text \<open>A batch of two customers: too few for four clusters.\<close>

definition small_frame :: dataframe where
  "small_frame =
     \<lparr>n_rows = 2,
      columns =
        [''total_spent'' \<mapsto> [Num 4800, Num 200],
         ''last_purchase_date'' \<mapsto> [Ts (990 * ns_per_day), Ts (300 * ns_per_day)]]\<rparr>"


text \<open>A batch of two customers with all columns; the second one has no intent score and
  no touchpoint count.\<close>

definition sparse_frame :: dataframe where
  "sparse_frame =
     \<lparr>n_rows = 2,
      columns =
        [''total_spent'' \<mapsto> [Num 4800, Num 200],
         ''intent_score'' \<mapsto> [Num (95 / 100), NaN],
         ''touchpoints_count'' \<mapsto> [Num 18, NaN],
         ''last_purchase_date'' \<mapsto> [Ts (990 * ns_per_day), Ts (300 * ns_per_day)]]\<rparr>"

text \<open>
  Stand-ins for the forecast libraries: a frame constructor that takes an object of
  columns, a date parser that knows the first months of 2024, a model that is the series
  it was fitted on, and a prediction of 1 for every month of the series and every month
  after it.
\<close>

definition demo_data_frame :: "json \<Rightarrow> pyerror + (string \<rightharpoonup> json list)" where
  "demo_data_frame j =
     (case j of
        JObj kvs \<Rightarrow>
          if list_all (\<lambda>(k, v). case v of JArr vs \<Rightarrow> True | _ \<Rightarrow> False) kvs
          then Inr (\<lambda>name. case map_of kvs name of Some (JArr vs) \<Rightarrow> Some vs | _ \<Rightarrow> None)
          else Inl ValueError
      | _ \<Rightarrow> Inl ValueError)"

definition demo_row :: "int \<Rightarrow> forecast_row" where
  "demo_row t =
     \<lparr>fr_ds = t, fr_yhat = Fin 1, fr_trend = Fin 1, fr_yhat_lower = Fin 0,
      fr_yhat_upper = Fin 2\<rparr>"

definition demo_fclibs :: "(int \<times> fcell) list fclibs" where
  "demo_fclibs =
     \<lparr>data_frame = demo_data_frame,
      select_other = (\<lambda>df j. Inl KeyError),
      parse_month =
        (\<lambda>j. case j of
                JStr s \<Rightarrow>
                  if s = ''2024-01'' then Inr 1 else if s = ''2024-02'' then Inr 2
                  else if s = ''2024-03'' then Inr 3 else Inl ValueError
              | _ \<Rightarrow> Inl TypeError),
      prophet_fit = (\<lambda>series. if length series < 2 then Inl ValueError else Inr series),
      prophet_predict =
        (\<lambda>model periods.
           Inr (map (\<lambda>(t, y). demo_row t) model @
                map (\<lambda>k. demo_row (fst (last model) + int k + 1)) [0..<nat periods])),
      format_month =
        (\<lambda>t. if t = 4 then ''2024-04'' else if t = 5 then ''2024-05'' else ''later'')\<rparr>"

text \<open>Three months without revenue, given out of order, and a horizon of two months.\<close>

definition zero_request :: "(string \<times> json) list" where
  "zero_request =
     [(''monthlyData'',
       JArr [JObj [(''month'', JStr ''2024-02''), (''revenue'', JInt 0)],
             JObj [(''month'', JStr ''2024-01''), (''revenue'', JReal 0)],
             JObj [(''month'', JStr ''2024-03''), (''revenue'', JInt 0)]]),
      (''periods'', JInt 2),
      (''type'', JStr ''revenue'')]"

text \<open>The same months with \<open>ds\<close> as the field to forecast, and the same months given
  as an object of three columns.\<close>

definition dates_request :: "(string \<times> json) list" where
  "dates_request =
     [(''monthlyData'',
       JArr [JObj [(''month'', JStr ''2024-02''), (''revenue'', JInt 0)],
             JObj [(''month'', JStr ''2024-01''), (''revenue'', JReal 0)],
             JObj [(''month'', JStr ''2024-03''), (''revenue'', JInt 0)]]),
      (''periods'', JInt 2),
      (''type'', JStr ''ds'')]"

definition columns_request :: "(string \<times> json) list" where
  "columns_request =
     [(''monthlyData'',
       JObj [(''month'', JArr [JStr ''2024-02'', JStr ''2024-01'', JStr ''2024-03'']),
             (''revenue'', JArr [JInt 0, JReal 0, JInt 0]),
             (''orders'', JArr [JInt 3, JInt 1, JInt 2])]),
      (''periods'', JStr '' 2 '')]"

text \<open>One month only, as in \<^verbatim>\<open>verify_service.py\<close>, \<^verbatim>\<open>test_insufficient_data\<close>.\<close>

definition short_request :: "(string \<times> json) list" where
  "short_request =
     [(''monthlyData'',
       JArr [JObj [(''month'', JStr ''2024-01''), (''revenue'', JInt 10000),
                   (''aov'', JInt 50), (''orders'', JInt 200)]]),
      (''periods'', JInt 1),
      (''type'', JStr ''revenue'')]"

text \<open>No month at all, and a horizon that is not a number.\<close>

definition bad_periods_request :: "(string \<times> json) list" where
  "bad_periods_request = [(''monthlyData'', JArr []), (''periods'', JStr ''six'')]"

text \<open>
  A stand-in for the phone library: a number with a plus sign parses as it is, a bare
  number gets the calling code of the region when the region is US, IN or GB and does
  not parse in any other region, and three numbers are valid.
\<close>

definition demo_phonelib :: "string phonelib" where
  "demo_phonelib =
     \<lparr>pn_parse =
        (\<lambda>number region.
           if take 1 number = ''+'' then Some number
           else (case region of
                   None \<Rightarrow> None
                 | Some r \<Rightarrow>
                     if r = ''US'' then Some (''+1'' @ number)
                     else if r = ''IN'' then Some (''+91'' @ number)
                     else if r = ''GB'' then Some (''+44'' @ number)
                     else None)),
      pn_is_valid_number =
        (\<lambda>p. p \<in> set [''+919876543210'', ''+14155552671'', ''+442071838750'']),
      pn_format_e164 = (\<lambda>p. p)\<rparr>"

text \<open>A configured dispatcher whose provider accepts every message.\<close>

definition demo_dispatch :: "string dispatch_env" where
  "demo_dispatch =
     \<lparr>twilio_client =
        Some (\<lambda>calls body sender recipient.
                Inr \<lparr>sid = ''SM'' @ replicate calls CHR ''1'', message_status = ''queued''\<rparr>),
      TWILIO_WHATSAPP_FROM = Some ''whatsapp:+14155238886'',
      phone_lib = demo_phonelib,
      py_str = (\<lambda>j. ''?''),
      slice_exception =
        (\<lambda>j. \<lparr>exc_text = ''object is not subscriptable'', exc_type = ''TypeError'',
               exc_msg = None, exc_code = None\<rparr>)\<rparr>"

text \<open>Three recipients; the phone of the second one is no number of any region.\<close>

definition demo_recipients :: "json list" where
  "demo_recipients =
     [JObj [(''phone'', JStr ''+14155552671''), (''message'', JStr ''Hello'')],
      JObj [(''phone'', JStr ''12345''), (''message'', JStr ''Hello''),
            (''customerName'', JStr ''Asha'')],
      JObj [(''phone'', JStr ''9876543210''), (''message'', JStr ''Hello'')]]"

text \<open>
  Two repositories as the server shows them. The first answers the listing of its
  commits, one per page, with links to the next and to the last of 57 pages; the second
  answers with a single page of three commits and no link.
\<close>

definition demo_link :: string where
  "demo_link =
     ''<https://h/c?per_page=1&page=2>; rel='' @ [CHR 0x22] @ ''next'' @ [CHR 0x22] @
     '', <https://h/c?per_page=1&page=57>; rel='' @ [CHR 0x22] @ ''last'' @ [CHR 0x22]"

definition paged_session :: session where
  "paged_session n url params =
     (if n = 0
      then Inr \<lparr>status_code = 200, headers = [''link'' \<mapsto> demo_link],
                body_json = Inr (JArr [JObj [(''sha'', JStr ''a1'')]])\<rparr>
      else Inr \<lparr>status_code = 200, headers = Map.empty,
                body_json = Inr (JArr [JObj [(''sha'', JStr ''f9'')]])\<rparr>)"

definition single_page_session :: session where
  "single_page_session n url params =
     Inr \<lparr>status_code = 200, headers = Map.empty,
          body_json = Inr (JArr [JObj [(''sha'', JStr ''a1'')], JObj [(''sha'', JStr ''b2'')],
                                 JObj [(''sha'', JStr ''c3'')]])\<rparr>"

definition demo_parse_query :: "string \<Rightarrow> (string \<rightharpoonup> string list)" where
  "demo_parse_query url =
     (if url = ''https://h/c?per_page=1&page=57''
      then [''per_page'' \<mapsto> [''1''], ''page'' \<mapsto> [''57'']]
      else Map.empty)"

text \<open>The part of \<open>demo_link\<close> that names the last page, and the address in it.\<close>

definition demo_last_part :: string where
  "demo_last_part =
     '' <https://h/c?per_page=1&page=57>; rel='' @ [CHR 0x22] @ ''last'' @ [CHR 0x22]"

definition demo_last_url :: string where
  "demo_last_url = ''https://h/c?per_page=1&page=57''"

text \<open>A third repository, whose last link has a page number that begins with the
  control character 0x1C (\<^verbatim>\<open>page=%1C7\<close> in the address).\<close>

definition odd_last_part :: string where
  "odd_last_part =
     ''<https://h/c?per_page=1&page=%1C7>; rel='' @ [CHR 0x22] @ ''last'' @ [CHR 0x22]"

definition odd_last_url :: string where
  "odd_last_url = ''https://h/c?per_page=1&page=%1C7''"

definition odd_session :: session where
  "odd_session n url params =
     Inr \<lparr>status_code = 200, headers = [''link'' \<mapsto> odd_last_part],
          body_json = Inr (JArr [JObj [(''sha'', JStr ''a1'')]])\<rparr>"

definition odd_parse_query :: "string \<Rightarrow> (string \<rightharpoonup> string list)" where
  "odd_parse_query url =
     (if url = odd_last_url
      then [''per_page'' \<mapsto> [''1''], ''page'' \<mapsto> [[CHR 0x1C, CHR ''7'']]]
      else Map.empty)"

section \<open>Properties\<close>

subsection \<open>The sample data, evaluated\<close>

lemma demo_to_datetime:
  "to_datetime demo_libs cs =
     Inr \<lparr>tz_aware = (zoned_date \<in> set cs),
          stamp = (\<lambda>i. if i < length cs then demo_stamp (cs ! i) else None)\<rparr>"
  by (simp add: demo_libs_def)

lemma demo_simulate_other: "simulate_other demo_libs xs = Inr None"
  by (simp add: demo_libs_def)

lemma demo_scaler_fit: "scaler_fit demo_libs X = (if X = [] then Inl ValueError else Inr ())"
  by (simp add: demo_libs_def)

lemma demo_scaler_transform: "scaler_transform demo_libs s X = Inr X"
  by (simp add: demo_libs_def)

lemma demo_kmeans_fit:
  "kmeans_fit demo_libs k X =
     (if length X < k \<or> list_ex (\<lambda>r. numeric_row r = None) X then Inl ValueError
      else Inr (map (\<lambda>r. the (numeric_row r)) (take k X)))"
  by (simp add: demo_libs_def)

lemma kmeans_contract_demo: "kmeans_contract demo_libs"
  by (auto simp: kmeans_contract_def demo_kmeans_fit split: if_splits)

lemma demo_preprocess: "preprocess demo_libs demo_now demo_frame = Inr demo_processed"
  by (simp add: preprocess_def get_col_def set_col_def set_col_scalar_def demo_frame_def
      demo_to_datetime demo_now_def demo_processed_def datetime_cells_def days_before_def
      demo_stamp_def zoned_date_def fillna_def isna_def days_since_def series_max_def
      clustering_features_def ensure_feature_def ns_per_day_def upt_rec)

lemma demo_features:
  "feature_rows demo_processed =
     [[Num 4800, Num (95 / 100), Num 18, Num 10], [Num 200, Num (1 / 10), Num 2, Num 700],
      [Num 2500, Num (6 / 10), Num 12, Num 400], [Num 0, Num (2 / 10), Num 1, Num 730]]"
  by (simp add: feature_rows_def demo_processed_def clustering_features_def upt_rec)

lemma demo_initialize:
  "initialize_segmentation_models demo_libs demo_now st demo_frame =
     (st\<lparr>segmentation_scaler := Some (Fitted ()),
         segmentation_kmeans := Some (Fitted demo_centres),
         segmentation_initialized := True\<rparr>, True)"
  by (simp add: initialize_segmentation_models_def demo_preprocess demo_features
      demo_scaler_fit demo_scaler_transform demo_kmeans_fit numeric_row_def demo_centres_def)

lemma small_preprocess:
  "preprocess demo_libs demo_now small_frame =
     Inr (fold ensure_feature clustering_features
            (set_col (set_col (set_col small_frame ''last_purchase_date''
                                 [Ts (990 * ns_per_day), Ts (300 * ns_per_day)])
                        ''total_spent'' [Num 4800, Num 200])
               ''recency'' [Num 10, Num 700]))"
  by (simp add: preprocess_def get_col_def set_col_def small_frame_def
      demo_to_datetime demo_now_def datetime_cells_def days_before_def demo_stamp_def
      zoned_date_def fillna_def isna_def days_since_def series_max_def ns_per_day_def upt_rec)

lemma small_features:
  "feature_rows (fold ensure_feature clustering_features
            (set_col (set_col (set_col small_frame ''last_purchase_date''
                                 [Ts (990 * ns_per_day), Ts (300 * ns_per_day)])
                        ''total_spent'' [Num 4800, Num 200])
               ''recency'' [Num 10, Num 700])) =
     [[Num 4800, Num (1 / 2), Num 0, Num 10], [Num 200, Num (1 / 2), Num 0, Num 700]]"
  by (simp add: feature_rows_def small_frame_def clustering_features_def ensure_feature_def
      set_col_def set_col_scalar_def default_feature_def upt_rec)


subsection \<open>The conversions of strings, on examples\<close>

lemmas literal_defs =
  c_strip_def is_c_space_def to_ascii_space_def is_digit_def digit_val_def max_str_digits_def

text \<open>
  \<^verbatim>\<open>int\<close> reads a literal between blanks, also between blanks beyond ASCII, and refuses
  one that follows the control character 0x1C.
\<close>

lemma int_of_string_examples:
  "int_of_string '' 57 '' = Some 57"
  "int_of_string ''-1_000'' = Some (- 1000)"
  "int_of_string [CHR 0xA0, CHR ''7''] = Some 7"
  "int_of_string [CHR 0x1C, CHR ''7''] = None"
  "int_of_string ''six'' = None"
  "int_of_string ''1__0'' = None"
  by (simp_all add: int_of_string_def literal_defs)

lemma int_of_string_limit:
  "int_of_string (replicate 4301 CHR ''1'') = None"
  by (simp add: int_of_string_def literal_defs Let_def)

lemma py_int_examples:
  "py_int (JStr '' 2 '') = Inr 2"
  "py_int (JStr [CHR 0x1C, CHR ''7'']) = Inl ValueError"
  "py_int (JReal (25 / 10)) = Inr 2"
  "py_int (JReal (- 25 / 10)) = Inr (- 2)"
  "py_int (JReal (10 ^ 400)) = Inl OverflowError"
  "py_int JNaN = Inl ValueError"
  "py_int JNull = Inl TypeError"
  by (simp_all add: py_int_def int_of_string_def literal_defs overflow_def)

lemma float_of_string_examples:
  "float_of_string ''4800'' = Some (Fin 4800)"
  "float_of_string '' 0.95'' = Some (Fin (95 / 100))"
  "float_of_string ''-2.5e+1'' = Some (Fin (- 25))"
  "float_of_string ''1_0.5'' = Some (Fin (21 / 2))"
  "float_of_string ''NaN'' = Some NaNf"
  "float_of_string ''-inf'' = Some NInf"
  "float_of_string ''1e309'' = Some PInf"
  "float_of_string ''n/a'' = None"
  "float_of_string ''1e'' = None"
  "float_of_string [CHR 0x1C, CHR ''7''] = None"
  by (simp_all add: float_of_string_def float_literal_def exponent_def digits_value_def
      lower_letter_def overflow_def np_neg_def literal_defs)

lemma py_float_examples:
  "py_float (Str ''4800'') = Inr (Fin 4800)"
  "py_float (Str ''n/a'') = Inl ValueError"
  "py_float NaN = Inr NaNf"
  "py_float NaT = Inl TypeError"
  by (simp_all add: py_float_def float_of_string_examples)

text \<open>A record with a missing feature, or with a feature outside its universe, is the
  library's to score.\<close>

lemma apply_fuzzy_other:
  assumes "read_inputs row = Inr xs" and "crisp_inputs xs = None"
  shows "apply_fuzzy_segmentation env row =
           (case simulate_other env xs of
              Inl e \<Rightarrow> caught e
            | Inr None \<Rightarrow> Inr (NaN, ''Unknown'')
            | Inr (Some score) \<Rightarrow> Inr (Num score, segment_category score))"
  using assms by (simp add: apply_fuzzy_segmentation_def simulate_def)

lemma crisp_inputs_examples:
  "crisp_inputs [Fin 200, NaNf, Fin 2, Fin 700] = None"
  "crisp_inputs [Fin 200, Fin (1 / 10), Fin 2, Fin 1030] = None"
  "crisp_inputs [Fin 200, Fin (1 / 10), Fin 2, Fin 700] =
     Some \<lparr>in_total_spent = 200, in_intent_score = 1 / 10, in_touchpoints_count = 2,
           in_recency = 700\<rparr>"
  by (simp_all add: crisp_inputs_def in_universe_def)

subsection \<open>Initialisation and the flag\<close>

lemma initialize_kmeans:
  "initialize_segmentation_models env now st df = (st', ok) \<Longrightarrow>
   segmentation_kmeans st' = Some (Fitted cs) \<Longrightarrow>
   segmentation_kmeans st = Some (Fitted cs) \<or> (\<exists>X. kmeans_fit env 4 X = Inr cs)"
  unfolding initialize_segmentation_models_def
  by (auto simp: Let_def split: sum.splits)









subsection \<open>Frames and rows\<close>

lemma length_to_records: "length (to_records df) = n_rows df"
  by (simp add: to_records_def)

lemma to_records_nth:
  "i < n_rows df \<Longrightarrow>
   (to_records df ! i) name = map_option (\<lambda>cs. cs ! i) (columns df name)"
  by (simp add: to_records_def)

lemma n_rows_init_result_columns: "n_rows (init_result_columns df) = n_rows df"
  by (simp add: init_result_columns_def set_col_scalar_def set_col_def)

lemma n_rows_write_results: "n_rows (write_results df ps labels) = n_rows df"
  by (simp add: write_results_def set_col_def)

lemma feature_init_result_columns:
  "name \<in> set clustering_features \<Longrightarrow>
   columns (init_result_columns df) name = columns df name"
  by (auto simp: init_result_columns_def set_col_scalar_def set_col_def clustering_features_def)

lemma preprocess_columns:
  assumes "preprocess env now df = Inr dfp"
  shows "n_rows dfp = n_rows df \<and>
         (\<exists>dates parsed spent.
            columns df ''last_purchase_date'' = Some dates \<and>
            to_datetime env dates = Inr parsed \<and> \<not> tz_aware parsed \<and>
            columns df ''total_spent'' = Some spent \<and>
            columns dfp ''total_spent'' = Some (fillna (Num 0) spent) \<and>
            columns dfp ''recency'' =
              Some (fillna (Num ((case series_max
                                        (map (days_since now)
                                           (datetime_cells parsed (length dates))) of
                                    Num m \<Rightarrow> m | _ \<Rightarrow> 1000) + 30))
                      (map (days_since now) (datetime_cells parsed (length dates))))) \<and>
         columns dfp ''intent_score'' =
           (case columns df ''intent_score'' of
              None \<Rightarrow> Some (replicate (n_rows df) (Num (1 / 2)))
            | Some cs \<Rightarrow> Some cs) \<and>
         columns dfp ''touchpoints_count'' =
           (case columns df ''touchpoints_count'' of
              None \<Rightarrow> Some (replicate (n_rows df) (Num 0))
            | Some cs \<Rightarrow> Some cs)"
proof -
  from assms obtain dates parsed spent recency where
    d: "columns df ''last_purchase_date'' = Some dates" and
    p: "to_datetime env dates = Inr parsed" and
    s: "columns df ''total_spent'' = Some spent" and
    r: "days_before now parsed (length dates) = Inr recency" and
    dfp: "dfp = fold ensure_feature clustering_features
                  (set_col
                     (set_col
                        (set_col df ''last_purchase_date''
                           (datetime_cells parsed (length dates)))
                        ''total_spent'' (fillna (Num 0) spent))
                     ''recency''
                     (fillna (Num ((case series_max recency of Num m \<Rightarrow> m | _ \<Rightarrow> 1000) + 30))
                        recency))"
    by (auto simp: preprocess_def get_col_def set_col_def Let_def
        split: option.splits sum.splits)
  from r have tz: "\<not> tz_aware parsed"
    and rec: "recency = map (days_since now) (datetime_cells parsed (length dates))"
    by (auto simp: days_before_def split: if_splits)
  show ?thesis
    using d p s tz
    by (auto simp: dfp rec set_col_def set_col_scalar_def clustering_features_def
        ensure_feature_def default_feature_def split: option.splits)
qed

subsection \<open>The fuzzy stage never ends a batch of numbers\<close>

lemma compute_raises_ValueError:
  "compute_promotional_segment v = Inl e \<Longrightarrow> e = ValueError"
  by (auto simp: compute_promotional_segment_def Let_def split: if_splits)

lemma read_inputs_numeric:
  assumes "row ''total_spent'' = Some (Num a)" and "row ''intent_score'' = Some (Num b)"
    and "row ''touchpoints_count'' = Some (Num c)" and "row ''recency'' = Some (Num d)"
  shows "read_inputs row = Inr [Fin a, Fin b, Fin c, Fin d]"
  using assms by (simp add: read_inputs_def row_float_def py_float_def)

lemma apply_fuzzy_numeric:
  assumes "row ''total_spent'' = Some (Num a)" and "row ''intent_score'' = Some (Num b)"
    and "row ''touchpoints_count'' = Some (Num c)" and "row ''recency'' = Some (Num d)"
    and "0 \<le> a \<and> a \<le> 5000" and "0 \<le> b \<and> b \<le> 1" and "0 \<le> c \<and> c \<le> 20"
    and "0 \<le> d \<and> d \<le> 800"
  shows "\<exists>p. apply_fuzzy_segmentation env row = Inr p"
proof -
  let ?v = "\<lparr>in_total_spent = a, in_intent_score = b, in_touchpoints_count = c,
             in_recency = d\<rparr>"
  have inputs: "read_inputs row = Inr [Fin a, Fin b, Fin c, Fin d]"
    using assms(1-4) by (rule read_inputs_numeric)
  have crisp: "crisp_inputs [Fin a, Fin b, Fin c, Fin d] = Some ?v"
    using assms(5-8) by (simp add: crisp_inputs_def in_universe_def)
  show ?thesis
  proof (cases "compute_promotional_segment ?v")
    case (Inl e)
    then have "e = ValueError" by (rule compute_raises_ValueError)
    with Inl inputs crisp show ?thesis
      by (simp add: apply_fuzzy_segmentation_def simulate_def caught_def)
  next
    case (Inr score)
    with inputs crisp show ?thesis
      by (simp add: apply_fuzzy_segmentation_def simulate_def)
  qed
qed

lemma fuzzy_rows_Inr:
  "fuzzy_rows env rs = Inr ps \<Longrightarrow>
   length ps = length rs \<and>
   (\<forall>i<length rs. apply_fuzzy_segmentation env (rs ! i) = Inr (ps ! i))"
proof (induction rs arbitrary: ps)
  case Nil
  then show ?case by simp
next
  case (Cons r rs)
  then obtain p ps' where p: "apply_fuzzy_segmentation env r = Inr p"
    and ps': "fuzzy_rows env rs = Inr ps'" and eq: "ps = p # ps'"
    by (auto split: sum.splits)
  from Cons.IH [OF ps'] p eq show ?case
    by (auto simp: nth_Cons split: nat.splits)
qed

lemma fuzzy_rows_total:
  "(\<And>r. r \<in> set rs \<Longrightarrow> \<exists>p. apply_fuzzy_segmentation env r = Inr p) \<Longrightarrow>
   \<exists>ps. fuzzy_rows env rs = Inr ps"
proof (induction rs)
  case Nil
  then show ?case by simp
next
  case (Cons r rs)
  then obtain p ps where "apply_fuzzy_segmentation env r = Inr p" "fuzzy_rows env rs = Inr ps"
    by (meson list.set_intros)
  then show ?case by simp
qed

subsection \<open>The cluster stage\<close>

lemma argmin_from_bound: "best < i \<Longrightarrow> argmin_from i best m ds < i + length ds"
proof (induction ds arbitrary: i best m)
  case Nil
  then show ?case by simp
next
  case (Cons d ds)
  have "argmin_from (Suc i) i d ds < Suc i + length ds"
    using Cons.IH [of i "Suc i" d] by simp
  moreover have "argmin_from (Suc i) best m ds < Suc i + length ds"
    using Cons.IH [of best "Suc i" m] Cons.prems by simp
  ultimately show ?case by simp
qed

lemma argmin_less: "ds \<noteq> [] \<Longrightarrow> argmin ds < length ds"
  using argmin_from_bound [of 0 1]
  by (cases ds) (auto simp: argmin_def)

lemma kmeans_predict_Inr:
  assumes "kmeans_predict model X = Inr labels"
  shows "\<exists>centres. model = Some (Fitted centres) \<and> length labels = length X \<and>
           (\<forall>i<length X. labels ! i < length centres)"
proof -
  from assms obtain centres where m: "model = Some (Fitted centres)"
    by (auto simp: kmeans_predict_def split: option.splits estimator.splits)
  with assms have ne: "centres \<noteq> []"
    and l: "labels = map (\<lambda>r. argmin (map (sq_dist (the (numeric_row r))) centres)) X"
    by (auto simp: kmeans_predict_def split: if_splits)
  from ne have "argmin (map (sq_dist x) centres) < length centres" for x
    using argmin_less [of "map (sq_dist x) centres"] by simp
  with m l show ?thesis by simp
qed

subsection \<open>What a classified batch holds\<close>

lemma classify_batch_Inr:
  assumes "classify_batch env now st df = Inr recs"
  shows "\<exists>dfp scaled ps labels.
           prepare_customer_data env now st df = Inr (dfp, scaled) \<and>
           fuzzy_rows env (to_records (init_result_columns dfp)) = Inr ps \<and>
           kmeans_predict (segmentation_kmeans st) scaled = Inr labels \<and>
           length labels = n_rows dfp \<and>
           length ps = n_rows dfp \<and>
           length recs = n_rows dfp \<and>
           (\<forall>i<n_rows dfp.
              (recs ! i) ''promotional_segment_score'' = Some (jsonable (fst (ps ! i))) \<and>
              (recs ! i) ''promotional_segment_category'' = Some (Str (snd (ps ! i))) \<and>
              (recs ! i) ''cluster_label'' = Some (Num (of_nat (labels ! i))))"
proof -
  from assms obtain dfp scaled ps labels where
    prep: "prepare_customer_data env now st df = Inr (dfp, scaled)" and
    fz: "fuzzy_rows env (to_records (init_result_columns dfp)) = Inr ps" and
    km: "kmeans_predict (segmentation_kmeans st) scaled = Inr labels" and
    len: "length labels = n_rows dfp" and
    recs: "recs = map (\<lambda>r. \<lambda>name. map_option jsonable (r name))
                     (to_records (write_results (init_result_columns dfp) ps labels))"
    by (auto simp: classify_batch_def split: sum.splits prod.splits if_splits)
  from fuzzy_rows_Inr [OF fz] have lps: "length ps = n_rows dfp"
    by (simp add: length_to_records n_rows_init_result_columns)
  have "(recs ! i) ''promotional_segment_score'' = Some (jsonable (fst (ps ! i))) \<and>
        (recs ! i) ''promotional_segment_category'' = Some (Str (snd (ps ! i))) \<and>
        (recs ! i) ''cluster_label'' = Some (Num (of_nat (labels ! i)))"
    if "i < n_rows dfp" for i
    using that len lps
    by (simp add: recs length_to_records n_rows_write_results n_rows_init_result_columns
        to_records_nth)
       (simp add: write_results_def set_col_def jsonable_def isna_def)
  with prep fz km len lps recs show ?thesis
    by (simp add: length_to_records n_rows_write_results n_rows_init_result_columns)
qed


subsection \<open>The states of the process\<close>

lemma segment_customers_state:
  "fst (segment_customers env now_init now st req) = st \<or>
   (\<exists>df ok. initialize_segmentation_models env now_init st df =
               (fst (segment_customers env now_init now st req), ok))"
  by (auto simp: segment_customers_def Let_def split: upload.splits sum.splits prod.splits)

lemma initialize_segmentation_state:
  "fst (initialize_segmentation env now st req) = st \<or>
   (\<exists>df ok. initialize_segmentation_models env now st df =
               (fst (initialize_segmentation env now st req), ok))"
  by (auto simp: initialize_segmentation_def Let_def split: upload.splits sum.splits prod.splits)

lemma reachable_centres:
  assumes "kmeans_contract env" and "reachable env st"
    and "segmentation_kmeans st = Some (Fitted cs)"
  shows "length cs = 4"
  using assms(2,3)
proof (induction arbitrary: cs rule: reachable.induct)
  case start
  then show ?case by (simp add: initial_state_def)
next
  case (classify st now_init now req)
  from segment_customers_state [of env now_init now st req] classify show ?case
    using initialize_kmeans assms(1) unfolding kmeans_contract_def by metis
next
  case (initialize st now req)
  from initialize_segmentation_state [of env now st req] initialize show ?case
    using initialize_kmeans assms(1) unfolding kmeans_contract_def by metis
qed

lemma segment_customers_Seg200:
  assumes "segment_customers env now_init now st req = (st', Seg200 recs)"
  shows "\<exists>filename df. req = FilePart filename (Inr df) \<and>
           classify_batch env now st' df = Inr recs"
  using assms
  by (auto simp: segment_customers_def Let_def
      split: upload.splits sum.splits prod.splits if_splits)

text \<open>
  C9. Every record that classification returns, from a state the process can be in and
  with a k-means library that returns as many centres as it was asked for, has a
  \<open>cluster_label\<close> among 0, 1, 2 and 3.
\<close>

theorem cluster_label_in_range:
  assumes "kmeans_contract env" and "reachable env st" and "segmentation_initialized st"
    and "segment_customers env now_init now st req = (st', Seg200 recs)"
    and "r \<in> set recs"
  shows "r ''cluster_label'' \<in> {Some (Num 0), Some (Num 1), Some (Num 2), Some (Num 3)}"
proof -
  from segment_customers_Seg200 [OF assms(4)]
  obtain df where cb: "classify_batch env now st' df = Inr recs"
    by blast
  have "st' = fst (segment_customers env now_init now st req)"
    by (simp add: assms(4))
  with assms(2) have reach: "reachable env st'"
    by (simp add: reachable.classify)
  from classify_batch_Inr [OF cb] obtain dfp scaled ps labels where
    all: "prepare_customer_data env now st' df = Inr (dfp, scaled) \<and>
          fuzzy_rows env (to_records (init_result_columns dfp)) = Inr ps \<and>
          kmeans_predict (segmentation_kmeans st') scaled = Inr labels \<and>
          length labels = n_rows dfp \<and>
          length ps = n_rows dfp \<and>
          length recs = n_rows dfp \<and>
          (\<forall>i<n_rows dfp.
             (recs ! i) ''promotional_segment_score'' = Some (jsonable (fst (ps ! i))) \<and>
             (recs ! i) ''promotional_segment_category'' = Some (Str (snd (ps ! i))) \<and>
             (recs ! i) ''cluster_label'' = Some (Num (of_nat (labels ! i))))"
    by (elim exE) (erule that)
  then have km: "kmeans_predict (segmentation_kmeans st') scaled = Inr labels"
    and len: "length labels = n_rows dfp" "length recs = n_rows dfp"
    and rows: "\<And>i. i < n_rows dfp \<Longrightarrow>
                 (recs ! i) ''cluster_label'' = Some (Num (of_nat (labels ! i)))"
    by simp_all
  from kmeans_predict_Inr [OF km] obtain centres where
    c: "segmentation_kmeans st' = Some (Fitted centres)" and
    lab: "length labels = length scaled" "\<forall>i<length scaled. labels ! i < length centres"
    by blast
  from reachable_centres [OF assms(1) reach c] have four: "length centres = 4" .
  from assms(5) obtain i where i: "i < length recs" "r = recs ! i"
    by (auto simp: in_set_conv_nth)
  with len lab four have "labels ! i < 4" by simp
  then have "labels ! i \<in> {0, 1, 2, 3}" by auto
  moreover from i len rows have "r ''cluster_label'' = Some (Num (of_nat (labels ! i)))"
    by simp
  ultimately show ?thesis by auto
qed


subsection \<open>A batch of numbers is classified\<close>

lemma classify_batch_returns:
  assumes prep: "prepare_customer_data env now st df = Inr (dfp, scaled)"
    and fz: "\<And>r. r \<in> set (to_records (init_result_columns dfp)) \<Longrightarrow>
                 \<exists>p. apply_fuzzy_segmentation env r = Inr p"
    and km: "kmeans_predict (segmentation_kmeans st) scaled = Inr labels"
    and len: "length labels = n_rows dfp"
  shows "\<exists>recs. classify_batch env now st df = Inr recs \<and> length recs = n_rows dfp"
proof -
  from fz obtain ps where "fuzzy_rows env (to_records (init_result_columns dfp)) = Inr ps"
    using fuzzy_rows_total by blast
  with prep km len show ?thesis
    by (simp add: classify_batch_def length_to_records n_rows_write_results
        n_rows_init_result_columns)
qed

lemma demo_rows:
  assumes "i < 4"
  shows "(to_records (init_result_columns demo_processed) ! i) ''total_spent'' =
     Some ([Num 4800, Num 200, Num 2500, Num 0] ! i) \<and>
   (to_records (init_result_columns demo_processed) ! i) ''intent_score'' =
     Some ([Num (95 / 100), Num (1 / 10), Num (6 / 10), Num (2 / 10)] ! i) \<and>
   (to_records (init_result_columns demo_processed) ! i) ''touchpoints_count'' =
     Some ([Num 18, Num 2, Num 12, Num 1] ! i) \<and>
   (to_records (init_result_columns demo_processed) ! i) ''recency'' =
     Some ([Num 10, Num 700, Num 400, Num 730] ! i)"
proof -
  from assms have "i < n_rows (init_result_columns demo_processed)"
    by (simp add: n_rows_init_result_columns demo_processed_def)
  then show ?thesis
    by (simp add: to_records_nth feature_init_result_columns clustering_features_def)
       (simp add: demo_processed_def)
qed

lemma demo_prepare:
  "prepare_customer_data demo_libs demo_now demo_state demo_frame =
     Inr (demo_processed, feature_rows demo_processed)"
  by (simp add: prepare_customer_data_def demo_preprocess demo_state_def demo_scaler_transform)

lemma demo_predict:
  "kmeans_predict (segmentation_kmeans demo_state) (feature_rows demo_processed) =
     Inr [0, 1, 2, 3]"
  by (simp add: demo_features kmeans_predict_def demo_state_def demo_centres_def
      numeric_row_def argmin_def sq_dist_def power2_eq_square)

lemma demo_classify:
  "\<exists>recs. classify_batch demo_libs demo_now demo_state demo_frame = Inr recs \<and>
          length recs = 4"
proof -
  have "\<exists>p. apply_fuzzy_segmentation demo_libs r = Inr p"
    if "r \<in> set (to_records (init_result_columns demo_processed))" for r
  proof -
    from that obtain i where i: "i < 4"
      and r: "r = to_records (init_result_columns demo_processed) ! i"
      by (auto simp: in_set_conv_nth length_to_records n_rows_init_result_columns
          demo_processed_def)
    from i have "i \<in> {0, 1, 2, 3}" by auto
    then show ?thesis
    proof (elim insertE emptyE)
      assume "i = 0"
      with demo_rows [of 0] r show ?thesis
        by (intro apply_fuzzy_numeric [of r 4800 "95 / 100" 18 10]) simp_all
    next
      assume "i = 1"
      with demo_rows [of 1] r show ?thesis
        by (intro apply_fuzzy_numeric [of r 200 "1 / 10" 2 700]) simp_all
    next
      assume "i = 2"
      with demo_rows [of 2] r show ?thesis
        by (intro apply_fuzzy_numeric [of r 2500 "6 / 10" 12 400]) simp_all
    next
      assume "i = 3"
      with demo_rows [of 3] r show ?thesis
        by (intro apply_fuzzy_numeric [of r 0 "2 / 10" 1 730]) simp_all
    qed
  qed
  from classify_batch_returns [OF demo_prepare this demo_predict]
  show ?thesis by (simp add: demo_processed_def)
qed

lemma demo_segment_customers:
  "\<exists>recs. segment_customers demo_libs demo_now demo_now demo_state
            (FilePart ''customers.csv'' (Inr demo_frame)) = (demo_state, Seg200 recs) \<and>
          length recs = 4"
  using demo_classify
  by (auto simp: segment_customers_def demo_state_def)

lemma demo_state_initialize:
  "initialize_segmentation_models demo_libs demo_now initial_state demo_frame =
     (demo_state, True)"
  by (simp add: demo_initialize) (simp add: initial_state_def demo_state_def)

lemma reachable_demo_state: "reachable demo_libs demo_state"
proof -
  have "fst (initialize_segmentation demo_libs demo_now initial_state
               (FilePart ''customers.csv'' (Inr demo_frame))) = demo_state"
    by (simp add: initialize_segmentation_def demo_state_initialize)
  with reachable.initialize [OF reachable.start, of demo_libs demo_now
      "FilePart ''customers.csv'' (Inr demo_frame)"]
  show ?thesis by simp
qed

theorem cluster_label_in_range_witness:
  "kmeans_contract demo_libs \<and> reachable demo_libs demo_state \<and>
   segmentation_initialized demo_state \<and>
   (\<exists>recs. segment_customers demo_libs demo_now demo_now demo_state
             (FilePart ''customers.csv'' (Inr demo_frame)) = (demo_state, Seg200 recs) \<and>
           length recs = 4 \<and>
           hd recs ''cluster_label'' \<in> {Some (Num 0), Some (Num 1), Some (Num 2), Some (Num 3)})"
proof -
  from demo_segment_customers obtain recs where
    run: "segment_customers demo_libs demo_now demo_now demo_state
            (FilePart ''customers.csv'' (Inr demo_frame)) = (demo_state, Seg200 recs)"
    and len: "length recs = 4"
    by blast
  have init: "segmentation_initialized demo_state"
    by (simp add: demo_state_def)
  from len have "hd recs \<in> set recs"
    by (cases recs) auto
  from cluster_label_in_range [OF kmeans_contract_demo reachable_demo_state init run this]
  show ?thesis
    using kmeans_contract_demo reachable_demo_state init run len by blast
qed

subsection \<open>Classification before initialisation\<close>




subsection \<open>Defaults for missing features\<close>

lemma prepare_preprocess:
  "prepare_customer_data env now st df = Inr (dfp, scaled) \<Longrightarrow>
   preprocess env now df = Inr dfp"
  by (auto simp: prepare_customer_data_def split: sum.splits option.splits estimator.splits)

text \<open>
  C3, as the code has it. In the frame that \<^verbatim>\<open>prepare_customer_data\<close> hands to the fuzzy
  and cluster stages, every record has intent score 0.5 when the batch came without an
  \<open>intent_score\<close> column and touchpoint count 0 when it came without a
  \<open>touchpoints_count\<close> column; when the batch has the column, every record keeps the
  value it has there.
\<close>

theorem missing_feature_column_defaults:
  assumes "prepare_customer_data env now st df = Inr (dfp, scaled)" and "i < n_rows df"
  shows "n_rows dfp = n_rows df \<and>
         (to_records dfp ! i) ''intent_score'' =
           (case columns df ''intent_score'' of
              None \<Rightarrow> Some (Num (1 / 2))
            | Some cs \<Rightarrow> Some (cs ! i)) \<and>
         (to_records dfp ! i) ''touchpoints_count'' =
           (case columns df ''touchpoints_count'' of
              None \<Rightarrow> Some (Num 0)
            | Some cs \<Rightarrow> Some (cs ! i))"
  using preprocess_columns [OF prepare_preprocess [OF assms(1)]] assms(2)
  by (auto simp: to_records_nth split: option.splits)

lemma small_prepare:
  "prepare_customer_data demo_libs demo_now demo_state small_frame =
     Inr (fold ensure_feature clustering_features
            (set_col (set_col (set_col small_frame ''last_purchase_date''
                                 [Ts (990 * ns_per_day), Ts (300 * ns_per_day)])
                        ''total_spent'' [Num 4800, Num 200])
               ''recency'' [Num 10, Num 700]),
          [[Num 4800, Num (1 / 2), Num 0, Num 10], [Num 200, Num (1 / 2), Num 0, Num 700]])"
  by (simp add: prepare_customer_data_def small_preprocess small_features demo_state_def
      demo_scaler_transform)

theorem missing_feature_column_defaults_witness:
  "\<exists>dfp scaled.
     prepare_customer_data demo_libs demo_now demo_state small_frame = Inr (dfp, scaled) \<and>
     (1::nat) < n_rows small_frame \<and>
     columns small_frame ''intent_score'' = None \<and>
     columns small_frame ''touchpoints_count'' = None \<and>
     (to_records dfp ! 1) ''intent_score'' = Some (Num (1 / 2)) \<and>
     (to_records dfp ! 1) ''touchpoints_count'' = Some (Num 0)"
proof -
  have i: "(1::nat) < n_rows small_frame" by (simp add: small_frame_def)
  have c: "columns small_frame ''intent_score'' = None"
    "columns small_frame ''touchpoints_count'' = None"
    by (simp_all add: small_frame_def)
  from missing_feature_column_defaults [OF small_prepare i] c i small_prepare
  show ?thesis by simp
qed

text \<open>
  The claim as the spec states it fails: a record whose intent score and touchpoint count
  are missing, in a batch that has both columns, reaches both stages with the two values
  still missing.
\<close>

theorem missing_feature_value_counterexample:
  "cell_at sparse_frame ''intent_score'' 1 = Some NaN \<and>
   cell_at sparse_frame ''touchpoints_count'' 1 = Some NaN \<and>
   (case prepare_customer_data demo_libs demo_now demo_state sparse_frame of
      Inl e \<Rightarrow> False
    | Inr (df_processed, scaled) \<Rightarrow>
        (to_records df_processed ! 1) ''intent_score'' = Some NaN \<and>
        (to_records df_processed ! 1) ''touchpoints_count'' = Some NaN \<and>
        feature_rows df_processed ! 1 = [Num 200, NaN, NaN, Num 700])"
  by (simp add: cell_at_def prepare_customer_data_def preprocess_def get_col_def set_col_def
      sparse_frame_def demo_to_datetime demo_now_def datetime_cells_def days_before_def
      demo_stamp_def zoned_date_def fillna_def isna_def
      days_since_def series_max_def clustering_features_def ensure_feature_def
      ns_per_day_def demo_state_def demo_scaler_transform to_records_def feature_rows_def
      upt_rec)

subsection \<open>The fuzzy stage on the high-value record\<close>

lemmas antecedent_defs =
  total_spent_low_def total_spent_medium_def total_spent_high_def
  intent_score_weak_def intent_score_moderate_def intent_score_strong_def
  touchpoints_count_low_def touchpoints_count_medium_def touchpoints_count_high_def
  recency_recent_def recency_moderate_def recency_distant_def

lemmas rule_defs = rule1_def rule2_def rule3_def rule4_def rule5_def rule6_def

lemma universe_points: "promotional_segment_universe = [0, 1, 2, 3, 4, 5, 6, 7, 8, 9, 10]"
  by (simp add: promotional_segment_universe_def upt_rec)

lemma sampled_nurture:
  "sampled (promotional_segment_ctrl New_customer_nurture) =
     [(0, 1), (1, 3 / 4), (2, 1 / 2), (3, 1 / 4), (4, 0), (5, 0), (6, 0), (7, 0), (8, 0),
      (9, 0), (10, 0)]"
  by (simp add: sampled_def universe_points promotional_segment_ctrl_def trimf_def)

lemma sampled_high_value:
  "sampled (promotional_segment_ctrl High_value_engagement) =
     [(0, 0), (1, 0), (2, 0), (3, 0), (4, 1 / 3), (5, 2 / 3), (6, 1), (7, 2 / 3), (8, 1 / 3),
      (9, 0), (10, 0)]"
  by (simp add: sampled_def universe_points promotional_segment_ctrl_def trimf_def)

lemma sampled_re_engagement:
  "sampled (promotional_segment_ctrl Re_engagement) =
     [(0, 0), (1, 0), (2, 0), (3, 0), (4, 0), (5, 0), (6, 0), (7, 0), (8, 1 / 3), (9, 2 / 3),
      (10, 1)]"
  by (simp add: sampled_def universe_points promotional_segment_ctrl_def trimf_def)

text \<open>Rules 1 and 6 fire, with strengths 5/6 and 3/5; the other four do not.\<close>

lemma high_value_rules:
  "rule1 high_value_input = 5 / 6"
  "rule2 high_value_input = 0"
  "rule3 high_value_input = 0"
  "rule4 high_value_input = 0"
  "rule5 high_value_input = 0"
  "rule6 high_value_input = 3 / 5"
  by (simp_all add: high_value_input_def rule_defs antecedent_defs trimf_def)

lemma high_value_cuts:
  "term_cut New_customer_nurture high_value_input = 0"
  "term_cut High_value_engagement high_value_input = 5 / 6"
  "term_cut Re_engagement high_value_input = 0"
  by (simp_all add: term_cut_def high_value_rules)

lemma crossings:
  "interp_universe (sampled (promotional_segment_ctrl New_customer_nurture)) 0 = [4]"
  "interp_universe (sampled (promotional_segment_ctrl High_value_engagement)) (5 / 6) =
     [11 / 2, 13 / 2]"
  "interp_universe (sampled (promotional_segment_ctrl Re_engagement)) 0 = [7]"
  by (simp_all add: sampled_nurture sampled_high_value sampled_re_engagement)

lemma extended_universe:
  "union1d promotional_segment_universe [4, 11 / 2, 13 / 2, 7] =
     [0, 1, 2, 3, 4, 5, 11 / 2, 6, 13 / 2, 7, 8, 9, 10]"
  by (simp add: union1d_def universe_points)

lemma high_value_memberships:
  "find_memberships high_value_input =
     [(0, 0), (1, 0), (2, 0), (3, 0), (4, 1 / 3), (5, 2 / 3), (11 / 2, 5 / 6), (6, 5 / 6),
      (13 / 2, 5 / 6), (7, 2 / 3), (8, 1 / 3), (9, 0), (10, 0)]"
  by (simp add: find_memberships_def segment_terms_def high_value_cuts crossings
      extended_universe sampled_nurture sampled_high_value sampled_re_engagement)

lemma high_value_sums:
  "centroid_sums
     [(0, 0), (1, 0), (2, 0), (3, 0), (4, 1 / 3), (5, 2 / 3), (11 / 2, 5 / 6), (6, 5 / 6),
      (13 / 2, 5 / 6), (7, 2 / 3), (8, 1 / 3), (9, 0), (10 :: real, 0 :: real)] =
     (35 / 2, 35 / 12)"
  by simp

lemma high_value_score:
  "compute_promotional_segment high_value_input = Inr 6"
  by (simp add: compute_promotional_segment_def high_value_memberships high_value_sums
      centroid_def float_eps_def)

lemma apply_fuzzy_high_value:
  assumes "row ''total_spent'' = Some (Num 4800)"
    and "row ''intent_score'' = Some (Num (95 / 100))"
    and "row ''touchpoints_count'' = Some (Num 18)"
    and "row ''recency'' = Some (Num 10)"
  shows "apply_fuzzy_segmentation env row = Inr (Num 6, ''High Value Engagement'')"
proof -
  have "read_inputs row = Inr [Fin 4800, Fin (95 / 100), Fin 18, Fin 10]"
    using assms by (rule read_inputs_numeric)
  moreover have "crisp_inputs [Fin 4800, Fin (95 / 100), Fin 18, Fin 10] =
                   Some high_value_input"
    by (simp add: crisp_inputs_def in_universe_def high_value_input_def)
  ultimately show ?thesis
    by (simp add: apply_fuzzy_segmentation_def simulate_def high_value_score
        segment_category_def promotional_bins_def promotional_labels_def)
qed

text \<open>
  C2. When a batch is classified, the record with total_spent 4800, intent_score 0.95,
  touchpoints_count 18 and a last purchase 10 whole days before the clock reading gets
  the score 6 (rules 1 and 6 fire and clip the term high_value_engagement at 5/6; the
  clipped triangle is symmetric about 6) and the category "High Value Engagement".
\<close>

theorem high_value_record_category:
  assumes run: "segment_customers env now_init now st (FilePart filename (Inr df)) =
                  (st', Seg200 recs)"
    and i: "i < n_rows df"
    and spent: "cell_at df ''total_spent'' i = Some (Num 4800)"
    and intent: "cell_at df ''intent_score'' i = Some (Num (95 / 100))"
    and touch: "cell_at df ''touchpoints_count'' i = Some (Num 18)"
    and date: "columns df ''last_purchase_date'' = Some dates" "i < length dates"
    and parsed: "to_datetime env dates = Inr parsed" "stamp parsed i = Some t"
    and days: "(now - t) div ns_per_day = 10"
  shows "(recs ! i) ''promotional_segment_category'' = Some (Str ''High Value Engagement'') \<and>
         (recs ! i) ''promotional_segment_score'' = Some (Num 6)"
proof -
  from segment_customers_Seg200 [OF run]
  have cb: "classify_batch env now st' df = Inr recs" by simp
  from classify_batch_Inr [OF cb] obtain dfp scaled ps labels where
    all: "prepare_customer_data env now st' df = Inr (dfp, scaled) \<and>
          fuzzy_rows env (to_records (init_result_columns dfp)) = Inr ps \<and>
          kmeans_predict (segmentation_kmeans st') scaled = Inr labels \<and>
          length labels = n_rows dfp \<and>
          length ps = n_rows dfp \<and>
          length recs = n_rows dfp \<and>
          (\<forall>i<n_rows dfp.
             (recs ! i) ''promotional_segment_score'' = Some (jsonable (fst (ps ! i))) \<and>
             (recs ! i) ''promotional_segment_category'' = Some (Str (snd (ps ! i))) \<and>
             (recs ! i) ''cluster_label'' = Some (Num (of_nat (labels ! i))))"
    by (elim exE) (erule that)
  then have prep: "prepare_customer_data env now st' df = Inr (dfp, scaled)"
    and fz: "fuzzy_rows env (to_records (init_result_columns dfp)) = Inr ps"
    by simp_all
  from preprocess_columns [OF prepare_preprocess [OF prep]] date(1) parsed(1)
  obtain spent_col where
    n: "n_rows dfp = n_rows df" and
    scol: "columns df ''total_spent'' = Some spent_col" and
    pspent: "columns dfp ''total_spent'' = Some (fillna (Num 0) spent_col)" and
    prec: "columns dfp ''recency'' =
             Some (fillna (Num ((case series_max
                                       (map (days_since now)
                                          (datetime_cells parsed (length dates))) of
                                   Num m \<Rightarrow> m | _ \<Rightarrow> 1000) + 30))
                     (map (days_since now) (datetime_cells parsed (length dates))))" and
    pintent: "columns dfp ''intent_score'' =
                (case columns df ''intent_score'' of
                   None \<Rightarrow> Some (replicate (n_rows df) (Num (1 / 2)))
                 | Some cs \<Rightarrow> Some cs)" and
    ptouch: "columns dfp ''touchpoints_count'' =
               (case columns df ''touchpoints_count'' of
                  None \<Rightarrow> Some (replicate (n_rows df) (Num 0))
                | Some cs \<Rightarrow> Some cs)"
    by auto
  let ?row = "to_records (init_result_columns dfp) ! i"
  from i n have i': "i < n_rows (init_result_columns dfp)"
    by (simp add: n_rows_init_result_columns)
  have f: "?row name = map_option (\<lambda>cs. cs ! i) (columns dfp name)"
    if "name \<in> set clustering_features" for name
    using to_records_nth [OF i'] feature_init_result_columns [OF that] by simp
  have r1: "?row ''total_spent'' = Some (Num 4800)"
    using spent scol pspent
    by (simp add: f clustering_features_def cell_at_def fillna_def isna_def
        split: if_splits)
  have r2: "?row ''intent_score'' = Some (Num (95 / 100))"
    using intent pintent
    by (auto simp: f clustering_features_def cell_at_def split: option.splits if_splits)
  have r3: "?row ''touchpoints_count'' = Some (Num 18)"
    using touch ptouch
    by (auto simp: f clustering_features_def cell_at_def split: option.splits if_splits)
  have r4: "?row ''recency'' = Some (Num 10)"
    using date(2) prec parsed(2) days
    by (simp add: f clustering_features_def fillna_def isna_def days_since_def
        datetime_cells_def)
  from fuzzy_rows_Inr [OF fz] i' have "apply_fuzzy_segmentation env ?row = Inr (ps ! i)"
    by (simp add: length_to_records)
  with apply_fuzzy_high_value [OF r1 r2 r3 r4, of env]
  have "ps ! i = (Num 6, ''High Value Engagement'')" by simp
  with all i n show ?thesis
    by (simp add: jsonable_def isna_def)
qed

theorem high_value_record_category_witness:
  "\<exists>recs. segment_customers demo_libs demo_now demo_now demo_state
            (FilePart ''customers.csv'' (Inr demo_frame)) = (demo_state, Seg200 recs) \<and>
          cell_at demo_frame ''total_spent'' 0 = Some (Num 4800) \<and>
          cell_at demo_frame ''intent_score'' 0 = Some (Num (95 / 100)) \<and>
          cell_at demo_frame ''touchpoints_count'' 0 = Some (Num 18) \<and>
          cell_at demo_frame ''last_purchase_date'' 0 = Some (Ts (990 * ns_per_day)) \<and>
          (demo_now - 990 * ns_per_day) div ns_per_day = 10 \<and>
          (recs ! 0) ''promotional_segment_category'' = Some (Str ''High Value Engagement'') \<and>
          (recs ! 0) ''promotional_segment_score'' = Some (Num 6)"
proof -
  from demo_segment_customers obtain recs where
    run: "segment_customers demo_libs demo_now demo_now demo_state
            (FilePart ''customers.csv'' (Inr demo_frame)) = (demo_state, Seg200 recs)"
    by blast
  let ?dates = "[Ts (990 * ns_per_day), Ts (300 * ns_per_day), Ts (600 * ns_per_day),
                 Str ''n/a'']"
  have i: "0 < n_rows demo_frame" by (simp add: demo_frame_def)
  have c: "cell_at demo_frame ''total_spent'' 0 = Some (Num 4800)"
    "cell_at demo_frame ''intent_score'' 0 = Some (Num (95 / 100))"
    "cell_at demo_frame ''touchpoints_count'' 0 = Some (Num 18)"
    by (simp_all add: cell_at_def demo_frame_def)
  have dc: "cell_at demo_frame ''last_purchase_date'' 0 = Some (Ts (990 * ns_per_day))"
    by (simp add: cell_at_def demo_frame_def)
  have dates: "columns demo_frame ''last_purchase_date'' = Some ?dates" "0 < length ?dates"
    by (simp_all add: demo_frame_def)
  have p: "to_datetime demo_libs ?dates =
             Inr \<lparr>tz_aware = (zoned_date \<in> set ?dates),
                  stamp = (\<lambda>i. if i < length ?dates then demo_stamp (?dates ! i) else None)\<rparr>"
    by (rule demo_to_datetime)
  have st: "stamp \<lparr>tz_aware = (zoned_date \<in> set ?dates),
                   stamp = (\<lambda>i. if i < length ?dates then demo_stamp (?dates ! i) else None)\<rparr>
              0 = Some (990 * ns_per_day)"
    by (simp add: demo_stamp_def)
  have d: "(demo_now - 990 * ns_per_day) div ns_per_day = 10"
    by (simp add: demo_now_def ns_per_day_def)
  from high_value_record_category [OF run i c dates p st d] run c dc d
  show ?thesis by blast
qed

subsection \<open>Forecast: validation before fitting\<close>

text \<open>
  C4, as the code has it. A request whose body is an object with a \<open>monthlyData\<close> list of
  fewer than 3 samples, and whose \<open>periods\<close> field is absent or converts with
  \<^verbatim>\<open>int()\<close>, is answered with the 400 and the fixed message, the samples are handed
  back, and no call to the model is made.
\<close>

theorem insufficient_data_rejected_before_fit:
  assumes "map_of kvs ''monthlyData'' = Some (JArr samples)" and "length samples < 3"
    and "py_int (case map_of kvs ''periods'' of None \<Rightarrow> JInt 6 | Some v \<Rightarrow> v) = Inr periods"
  shows "forecast env (Inr (JObj kvs)) =
           (Fc400 ''Insufficient data. Need at least 3 months of historical data.''
              (JArr samples), [])"
proof -
  from assms(1) have "kvs \<noteq> []" by auto
  with assms show ?thesis
    by (simp add: forecast_def truthy_def dict_get_def py_len_def)
qed

theorem insufficient_data_rejected_before_fit_witness:
  "forecast demo_fclibs (Inr (JObj short_request)) =
     (Fc400 ''Insufficient data. Need at least 3 months of historical data.''
        (JArr [JObj [(''month'', JStr ''2024-01''), (''revenue'', JInt 10000),
                     (''aov'', JInt 50), (''orders'', JInt 200)]]), [])"
proof -
  have "map_of short_request ''monthlyData'' =
          Some (JArr [JObj [(''month'', JStr ''2024-01''), (''revenue'', JInt 10000),
                            (''aov'', JInt 50), (''orders'', JInt 200)]])"
    by (simp add: short_request_def)
  moreover have "py_int (case map_of short_request ''periods'' of
                           None \<Rightarrow> JInt 6 | Some v \<Rightarrow> v) = Inr 1"
    by (simp add: short_request_def py_int_def)
  ultimately show ?thesis
    using insufficient_data_rejected_before_fit [of short_request _ 1 demo_fclibs]
    by simp
qed

text \<open>
  The claim as the spec states it fails: \<open>periods\<close> is converted before the samples are
  counted (line 188 before line 199), so a request without samples whose \<open>periods\<close> is
  the string "six" is answered by the 500 of the outer handler.
\<close>

theorem insufficient_data_counterexample:
  "map_of bad_periods_request ''monthlyData'' = Some (JArr []) \<and>
   forecast demo_fclibs (Inr (JObj bad_periods_request)) = (Fc500 ValueError, [])"
  by (simp add: bad_periods_request_def forecast_def truthy_def dict_get_def py_int_def
      int_of_string_def c_strip_def is_c_space_def to_ascii_space_def is_digit_def
      max_str_digits_def)

subsection \<open>Forecast: the guarded MAPE\<close>

lemma np_values_Inr:
  "np_values cs = Inr xs \<Longrightarrow> \<forall>x\<in>set xs. \<exists>c\<in>set cs. np_value c = Inr x"
proof (induction cs arbitrary: xs)
  case Nil
  then show ?case by simp
next
  case (Cons c cs)
  then obtain x xs' where "np_value c = Inr x" "np_values cs = Inr xs'" "xs = x # xs'"
    by (auto split: sum.splits)
  with Cons show ?case by auto
qed

lemma compute_metrics_zero:
  "compute_metrics actuals predictions = Inr m \<Longrightarrow> \<forall>a\<in>set actuals. a = Fin 0 \<Longrightarrow>
   mape m = Fin 0"
  by (auto simp: compute_metrics_def list_ex_iff split: sum.splits if_splits)

lemma series_values:
  "set (map snd (map (\<lambda>(t, month, y). (t, y)) (sort_key fst (zip dates (zip months vs)))))
     \<subseteq> set vs"
  by (auto dest!: set_zip_rightD)

lemma fit_and_respond_200:
  assumes "fit_and_respond env monthly_data periods (JStr name) = (Fc200 h f m, ev)"
  shows "\<exists>df dates vs ys actuals predictions.
           make_frame env monthly_data = Inr df \<and>
           assign_ds df dates name = Some vs \<and> set ys \<subseteq> set vs \<and>
           np_values ys = Inr actuals \<and>
           compute_metrics actuals predictions = Inr m"
proof -
  from assms obtain df where md: "make_frame env monthly_data = Inr df"
    by (auto simp: fit_and_respond_def split: sum.splits)
  from assms md obtain months where mo: "frame_column df ''month'' = Inr months"
    by (auto simp: fit_and_respond_def split: sum.splits)
  from assms md mo obtain dates where da: "parse_months env months = Inr dates"
    by (auto simp: fit_and_respond_def split: sum.splits)
  from assms md mo da obtain vs where
    vs: "select_column env (assign_ds df dates) (JStr name) = Inr vs"
    by (auto simp: fit_and_respond_def split: sum.splits)
  then have col: "assign_ds df dates name = Some vs"
    by (simp add: select_column_def frame_column_def split: option.splits)
  define ys where
    "ys = map snd (map (\<lambda>(t, month, y). (t, y)) (sort_key fst (zip dates (zip months vs))))"
  from assms md mo da vs obtain actuals predictions where
    "np_values ys = Inr actuals" "compute_metrics actuals predictions = Inr m"
    unfolding ys_def fit_and_respond_def Let_def
    by (simp split: sum.splits)
  moreover have "set ys \<subseteq> set vs"
    unfolding ys_def by (rule series_values)
  ultimately show ?thesis using md col by blast
qed

lemma zero_column:
  assumes "\<forall>s\<in>set samples. sample_field s name \<in> {Some (JInt 0), Some (JReal 0)}"
    and "assign_ds (records_frame samples) dates name = Some vs" and "c \<in> set vs"
  shows "(\<exists>t. c = Stamp t) \<or> c = J (JInt 0) \<or> c = J (JReal 0)"
proof (cases "name = ''ds''")
  case True
  with assms(2,3) show ?thesis
    by (auto simp: assign_ds_def)
next
  case False
  with assms(2) have "vs = map J (map (\<lambda>s. case sample_field s name of
                                              None \<Rightarrow> JNull | Some v \<Rightarrow> v) samples)"
    by (auto simp: assign_ds_def records_frame_def split: if_splits)
  with assms(1,3) show ?thesis by auto
qed

text \<open>
  C5. Whenever \<^verbatim>\<open>/forecast\<close> answers with metrics a request in which the chosen field
  of every sample is the number zero, the MAPE it reports is exactly 0; such an answer
  exists only for at least 3 samples.
\<close>

theorem mape_zero_for_zero_actuals:
  assumes "forecast env (Inr (JObj kvs)) = (Fc200 historical future m, events)"
    and "map_of kvs ''monthlyData'' = Some (JArr samples)"
    and "(case map_of kvs ''type'' of None \<Rightarrow> JStr ''revenue'' | Some v \<Rightarrow> v) = JStr name"
    and "\<forall>s\<in>set samples. sample_field s name \<in> {Some (JInt 0), Some (JReal 0)}"
  shows "mape m = Fin 0 \<and> 3 \<le> length samples"
proof -
  from assms(1,2,3) obtain periods where
    n: "3 \<le> length samples" and
    far: "fit_and_respond env (JArr samples) periods (JStr name) =
            (Fc200 historical future m, events)"
    by (auto simp: forecast_def dict_get_def py_len_def split: if_splits sum.splits)
  from assms(4) have "list_all is_object samples"
    by (auto simp: list_all_iff sample_field_def is_object_def split: json.splits)
  then have frame: "make_frame env (JArr samples) = Inr (records_frame samples)"
    by (simp add: make_frame_def)
  from fit_and_respond_200 [OF far] frame obtain dates vs ys actuals predictions where
    vs: "assign_ds (records_frame samples) dates name = Some vs" and
    sub: "set ys \<subseteq> set vs" and
    act: "np_values ys = Inr actuals" and
    cm: "compute_metrics actuals predictions = Inr m"
    by auto
  have "a = Fin 0" if "a \<in> set actuals" for a
  proof -
    from np_values_Inr [OF act] that obtain c where c: "c \<in> set ys" "np_value c = Inr a"
      by blast
    with sub have "c \<in> set vs" by blast
    from zero_column [OF assms(4) vs this] c(2) show ?thesis
      by (auto simp: np_value_def int_float_def overflow_def)
  qed
  then have "\<forall>a\<in>set actuals. a = Fin 0" by blast
  with compute_metrics_zero [OF cm] n show ?thesis by simp
qed


lemma demo_parse_month:
  "parse_month demo_fclibs (JStr s) =
     (if s = ''2024-01'' then Inr 1 else if s = ''2024-02'' then Inr 2
      else if s = ''2024-03'' then Inr 3 else Inl ValueError)"
  by (simp add: demo_fclibs_def)

lemma demo_prophet_fit:
  "prophet_fit demo_fclibs series = (if length series < 2 then Inl ValueError else Inr series)"
  by (simp add: demo_fclibs_def)

lemma demo_prophet_predict:
  "prophet_predict demo_fclibs model periods =
     Inr (map (\<lambda>(t, y). demo_row t) model @
          map (\<lambda>k. demo_row (fst (last model) + int k + 1)) [0..<nat periods])"
  by (simp add: demo_fclibs_def)

lemma demo_format_month:
  "format_month demo_fclibs t =
     (if t = 4 then ''2024-04'' else if t = 5 then ''2024-05'' else ''later'')"
  by (simp add: demo_fclibs_def)

lemma zero_frame:
  "make_frame demo_fclibs
     (JArr [JObj [(''month'', JStr ''2024-02''), (''revenue'', JInt 0)],
            JObj [(''month'', JStr ''2024-01''), (''revenue'', JReal 0)],
            JObj [(''month'', JStr ''2024-03''), (''revenue'', JInt 0)]]) =
   Inr (records_frame
          [JObj [(''month'', JStr ''2024-02''), (''revenue'', JInt 0)],
           JObj [(''month'', JStr ''2024-01''), (''revenue'', JReal 0)],
           JObj [(''month'', JStr ''2024-03''), (''revenue'', JInt 0)]])"
  by (simp add: make_frame_def is_object_def)

lemma zero_columns:
  "records_frame
     [JObj [(''month'', JStr ''2024-02''), (''revenue'', JInt 0)],
      JObj [(''month'', JStr ''2024-01''), (''revenue'', JReal 0)],
      JObj [(''month'', JStr ''2024-03''), (''revenue'', JInt 0)]] ''month'' =
   Some [JStr ''2024-02'', JStr ''2024-01'', JStr ''2024-03'']"
  "records_frame
     [JObj [(''month'', JStr ''2024-02''), (''revenue'', JInt 0)],
      JObj [(''month'', JStr ''2024-01''), (''revenue'', JReal 0)],
      JObj [(''month'', JStr ''2024-03''), (''revenue'', JInt 0)]] ''revenue'' =
   Some [JInt 0, JReal 0, JInt 0]"
  by (simp_all add: records_frame_def sample_field_def)

lemma zero_forecast:
  "forecast demo_fclibs (Inr (JObj zero_request)) =
     (Fc200
        [\<lparr>pt_month = JStr ''2024-01'', pt_value = Fin 0, pt_type = ''historical'',
          pt_trend = Fin 1, pt_lower = Fin 0, pt_upper = Fin 2\<rparr>,
         \<lparr>pt_month = JStr ''2024-02'', pt_value = Fin 0, pt_type = ''historical'',
          pt_trend = Fin 1, pt_lower = Fin 0, pt_upper = Fin 2\<rparr>,
         \<lparr>pt_month = JStr ''2024-03'', pt_value = Fin 0, pt_type = ''historical'',
          pt_trend = Fin 1, pt_lower = Fin 0, pt_upper = Fin 2\<rparr>]
        [\<lparr>pt_month = JStr ''2024-04'', pt_value = Fin 1, pt_type = ''forecast'',
          pt_trend = Fin 1, pt_lower = Fin 0, pt_upper = Fin 2\<rparr>,
         \<lparr>pt_month = JStr ''2024-05'', pt_value = Fin 1, pt_type = ''forecast'',
          pt_trend = Fin 1, pt_lower = Fin 0, pt_upper = Fin 2\<rparr>]
        \<lparr>mape = Fin 0, mae = Fin 1, rmse = Fin 1\<rparr>,
      [ModelFit, ModelPredict])"
  by (simp add: forecast_def zero_request_def truthy_def dict_get_def py_int_def py_len_def
      fit_and_respond_def zero_frame zero_columns frame_column_def select_column_def
      assign_ds_def demo_parse_month demo_prophet_fit demo_prophet_predict
      demo_format_month demo_row_def json_float_def np_value_def int_float_def overflow_def
      format_forecast_def compute_metrics_def broadcast2_def np_sub_def
      np_neg_def np_abs_def np_mean_def np_sqrt_def upt_rec)

text \<open>The same months, asked for the field \<open>ds\<close>: the model is fitted on the dates and
  predicts, and the answer fails when a date is converted to a float.\<close>

lemma dates_forecast:
  "forecast demo_fclibs (Inr (JObj dates_request)) =
     (Fc500 TypeError, [ModelFit, ModelPredict])"
  by (simp add: forecast_def dates_request_def truthy_def dict_get_def py_int_def py_len_def
      fit_and_respond_def zero_frame zero_columns frame_column_def select_column_def
      assign_ds_def demo_parse_month demo_prophet_fit demo_prophet_predict
      demo_format_month demo_row_def json_float_def upt_rec)

text \<open>The same months as an object of columns, with the horizon given as a string: the
  frame is the library's, and the answer is the one for the list of samples.\<close>

lemma columns_frame:
  "make_frame demo_fclibs
     (JObj [(''month'', JArr [JStr ''2024-02'', JStr ''2024-01'', JStr ''2024-03'']),
            (''revenue'', JArr [JInt 0, JReal 0, JInt 0]),
            (''orders'', JArr [JInt 3, JInt 1, JInt 2])]) =
   Inr (\<lambda>name. case map_of
                       [(''month'', JArr [JStr ''2024-02'', JStr ''2024-01'', JStr ''2024-03'']),
                        (''revenue'', JArr [JInt 0, JReal 0, JInt 0]),
                        (''orders'', JArr [JInt 3, JInt 1, JInt 2])] name of
                  Some (JArr vs) \<Rightarrow> Some vs
                | _ \<Rightarrow> None)"
  by (simp add: make_frame_def demo_fclibs_def demo_data_frame_def)

lemma columns_forecast:
  "forecast demo_fclibs (Inr (JObj columns_request)) =
   forecast demo_fclibs (Inr (JObj zero_request))"
  unfolding zero_forecast
  by (simp add: forecast_def columns_request_def truthy_def dict_get_def py_int_def py_len_def
      int_of_string_def literal_defs
      fit_and_respond_def columns_frame frame_column_def select_column_def
      assign_ds_def demo_parse_month demo_prophet_fit demo_prophet_predict
      demo_format_month demo_row_def json_float_def np_value_def int_float_def overflow_def
      format_forecast_def compute_metrics_def broadcast2_def np_sub_def
      np_neg_def np_abs_def np_mean_def np_sqrt_def upt_rec)

theorem mape_zero_for_zero_actuals_witness:
  "(\<exists>historical future m events.
      forecast demo_fclibs (Inr (JObj zero_request)) = (Fc200 historical future m, events) \<and>
      mape m = Fin 0) \<and>
   map_of zero_request ''type'' = Some (JStr ''revenue'') \<and>
   (\<exists>samples. map_of zero_request ''monthlyData'' = Some (JArr samples) \<and>
      length samples = 3 \<and>
      list_all (\<lambda>s. sample_field s ''revenue'' \<in> {Some (JInt 0), Some (JReal 0)}) samples)"
proof -
  have md: "map_of zero_request ''monthlyData'' =
          Some (JArr [JObj [(''month'', JStr ''2024-02''), (''revenue'', JInt 0)],
                      JObj [(''month'', JStr ''2024-01''), (''revenue'', JReal 0)],
                      JObj [(''month'', JStr ''2024-03''), (''revenue'', JInt 0)]])"
    by (simp add: zero_request_def)
  have ty: "(case map_of zero_request ''type'' of None \<Rightarrow> JStr ''revenue'' | Some v \<Rightarrow> v) =
          JStr ''revenue''"
    by (simp add: zero_request_def)
  have z: "\<forall>s\<in>set [JObj [(''month'', JStr ''2024-02''), (''revenue'', JInt 0)],
                     JObj [(''month'', JStr ''2024-01''), (''revenue'', JReal 0)],
                     JObj [(''month'', JStr ''2024-03''), (''revenue'', JInt 0)]].
             sample_field s ''revenue'' \<in> {Some (JInt 0), Some (JReal 0)}"
    by (simp add: sample_field_def)
  from mape_zero_for_zero_actuals [OF zero_forecast md ty z]
  show ?thesis
    using zero_forecast md z by (simp add: zero_request_def sample_field_def)
qed

subsection \<open>Phone normalizer: bare numbers of ten digits\<close>

lemma digit_kept:
  "is_digit c \<Longrightarrow> \<not> is_space c \<and> c \<notin> set '' -().''"
  by (auto simp: is_digit_def is_space_def)

lemma dropWhile_none: "\<forall>x\<in>set xs. \<not> P x \<Longrightarrow> dropWhile P xs = xs"
  by (cases xs) auto

lemma clean_phone_digits:
  assumes "list_all is_digit phone"
  shows "clean_phone phone = phone"
proof -
  from assms have ns: "\<forall>c\<in>set phone. \<not> is_space c" and nf: "\<forall>c\<in>set phone. c \<notin> set '' -().''"
    using digit_kept by (auto simp: list_all_iff)
  from ns have "dropWhile is_space phone = phone"
    by (rule dropWhile_none)
  moreover from ns have "dropWhile is_space (rev phone) = rev phone"
    by (intro dropWhile_none) simp
  ultimately have "strip phone = phone"
    by (simp add: strip_def)
  moreover from nf have "filter (\<lambda>c. c \<notin> set '' -().'') phone = phone"
    by (simp add: filter_id_conv)
  ultimately show ?thesis
    by (simp add: clean_phone_def)
qed

lemma digits_isdigit: "list_all is_digit phone \<Longrightarrow> list_all py_isdigit phone"
  by (simp add: list_all_iff py_isdigit_def)

lemma digits_no_plus:
  "list_all is_digit phone \<Longrightarrow> take 1 phone \<noteq> ''+''"
  by (cases phone) (auto simp: is_digit_def)

text \<open>
  C7. For a string of exactly ten digits that does not parse as a valid number of the
  default region, the result is the first valid one among the number prefixed with +91,
  when its first digit is 6, 7, 8 or 9, and then the number prefixed with +91, +1, +44,
  +61 and +49 in this order; only when none of them is valid do the later steps run.
\<close>

theorem ten_digit_number_candidates:
  assumes "length phone = 10" and "list_all is_digit phone"
    and "try_parse lib phone (Some ''US'') = None"
  shows "format_phone_number lib phone ''US'' =
           (case first_valid lib
                   (map (\<lambda>code. code @ phone)
                      ((if hd phone \<in> set ''6789'' then [''+91''] else []) @
                       [''+91'', ''+1'', ''+44'', ''+61'', ''+49''])) of
              Some r \<Rightarrow> Some r
            | None \<Rightarrow>
                (case try_parse lib phone (Some ''IN'') of
                   Some r \<Rightarrow> Some r
                 | None \<Rightarrow> first_region lib phone fallback_regions))"
proof -
  from assms(1) have ne: "phone \<noteq> []" by auto
  show ?thesis
    using assms ne digits_no_plus [OF assms(2)] digits_isdigit [OF assms(2)]
    by (simp add: format_phone_number_def clean_phone_digits country_codes_def
        split: option.splits)
qed

lemma demo_pn_parse:
  "pn_parse demo_phonelib number region =
     (if take 1 number = ''+'' then Some number
      else (case region of
              None \<Rightarrow> None
            | Some r \<Rightarrow>
                if r = ''US'' then Some (''+1'' @ number)
                else if r = ''IN'' then Some (''+91'' @ number)
                else if r = ''GB'' then Some (''+44'' @ number)
                else None))"
  by (simp add: demo_phonelib_def)

lemma demo_pn_valid:
  "pn_is_valid_number demo_phonelib p =
     (p \<in> set [''+919876543210'', ''+14155552671'', ''+442071838750''])"
  by (simp add: demo_phonelib_def)

lemma demo_pn_format: "pn_format_e164 demo_phonelib p = p"
  by (simp add: demo_phonelib_def)

lemma demo_try_parse:
  "try_parse demo_phonelib number region =
     (let p = (if take 1 number = ''+'' then Some number
               else (case region of
                       None \<Rightarrow> None
                     | Some r \<Rightarrow>
                         if r = ''US'' then Some (''+1'' @ number)
                         else if r = ''IN'' then Some (''+91'' @ number)
                         else if r = ''GB'' then Some (''+44'' @ number)
                         else None))
      in case p of
           None \<Rightarrow> None
         | Some q \<Rightarrow>
             if q \<in> set [''+919876543210'', ''+14155552671'', ''+442071838750'']
             then Some q else None)"
  unfolding try_parse_def demo_pn_parse demo_pn_valid demo_pn_format Let_def
  by (rule refl)

theorem ten_digit_number_candidates_witness:
  "length ''9876543210'' = 10 \<and> list_all is_digit ''9876543210'' \<and>
   try_parse demo_phonelib ''9876543210'' (Some ''US'') = None \<and>
   format_phone_number demo_phonelib ''9876543210'' ''US'' = Some ''+919876543210'' \<and>
   try_parse demo_phonelib ''2071838750'' (Some ''US'') = None \<and>
   format_phone_number demo_phonelib ''2071838750'' ''US'' = Some ''+442071838750''"
proof -
  have a: "length ''9876543210'' = 10" "list_all is_digit ''9876543210''"
    "try_parse demo_phonelib ''9876543210'' (Some ''US'') = None"
    by (simp_all add: is_digit_def demo_try_parse)
  have b: "length ''2071838750'' = 10" "list_all is_digit ''2071838750''"
    "try_parse demo_phonelib ''2071838750'' (Some ''US'') = None"
    by (simp_all add: is_digit_def demo_try_parse)
  from ten_digit_number_candidates [OF a] ten_digit_number_candidates [OF b] a b
  show ?thesis
    by (simp add: demo_try_parse)
qed


subsection \<open>Messaging dispatcher: one entry per recipient\<close>

lemma dispatch_one_phone:
  "res_phone (fst (dispatch_one env create sender calls kvs)) =
     (case map_of kvs ''phone'' of None \<Rightarrow> JNull | Some v \<Rightarrow> v)"
  by (simp add: dispatch_one_def Let_def failure_def exception_entry_def
      split: option.splits sum.splits)

lemma dispatch_one_invalid:
  assumes "truthy (case map_of kvs ''phone'' of None \<Rightarrow> JNull | Some v \<Rightarrow> v)"
    and "truthy (case map_of kvs ''message'' of None \<Rightarrow> JNull | Some v \<Rightarrow> v)"
    and "format_phone_number (phone_lib env)
           (str_of env (case map_of kvs ''phone'' of None \<Rightarrow> JNull | Some v \<Rightarrow> v)) ''US'' = None"
  shows "fst (dispatch_one env create sender calls kvs) =
           failure (case map_of kvs ''phone'' of None \<Rightarrow> JNull | Some v \<Rightarrow> v)
             (case map_of kvs ''customerName'' of None \<Rightarrow> JStr ''Customer'' | Some v \<Rightarrow> v)
             (''Invalid phone number format: '' @
                str_of env (case map_of kvs ''phone'' of None \<Rightarrow> JNull | Some v \<Rightarrow> v))
             None"
  using assms by (simp add: dispatch_one_def Let_def)

lemma dispatch_all_objects:
  "list_all is_object rs \<Longrightarrow> \<exists>results. dispatch_all env create sender calls rs = Inr results"
proof (induction rs arbitrary: calls)
  case Nil
  then show ?case by simp
next
  case (Cons r rs)
  then obtain kvs where r: "r = JObj kvs"
    by (cases r) (auto simp: is_object_def)
  obtain entry calls' where one: "dispatch_one env create sender calls kvs = (entry, calls')"
    by (cases "dispatch_one env create sender calls kvs")
  from Cons obtain results where "dispatch_all env create sender calls' rs = Inr results"
    by auto
  with r one show ?case by simp
qed

lemma dispatch_all_Inr:
  "dispatch_all env create sender calls rs = Inr results \<Longrightarrow>
   length results = length rs \<and>
   (\<forall>i<length rs. \<exists>kvs c. rs ! i = JObj kvs \<and>
                     results ! i = fst (dispatch_one env create sender c kvs))"
proof (induction rs arbitrary: calls results)
  case Nil
  then show ?case by simp
next
  case (Cons r rs)
  from Cons.prems obtain kvs where r: "r = JObj kvs"
    by (cases r) auto
  obtain entry calls' where one: "dispatch_one env create sender calls kvs = (entry, calls')"
    by (cases "dispatch_one env create sender calls kvs")
  from Cons.prems r one obtain entries where
    rest: "dispatch_all env create sender calls' rs = Inr entries" and
    res: "results = entry # entries"
    by (auto split: sum.splits)
  from Cons.IH [OF rest] have len: "length entries = length rs" and
    nth: "\<And>i. i < length rs \<Longrightarrow>
            \<exists>kvs c. rs ! i = JObj kvs \<and> entries ! i = fst (dispatch_one env create sender c kvs)"
    by auto
  have "\<exists>kvs c. (r # rs) ! i = JObj kvs \<and>
                results ! i = fst (dispatch_one env create sender c kvs)"
    if "i < length (r # rs)" for i
  proof (cases i)
    case 0
    with r one res show ?thesis by (auto intro: exI [of _ calls])
  next
    case (Suc j)
    with that nth [of j] res show ?thesis by simp
  qed
  with len res show ?case by simp
qed

text \<open>
  C6, as the code has it. For a non-empty list of recipient objects, sent while the
  Twilio client and the sender are configured, the endpoint answers with the report:
  \<open>total\<close> is the number of recipients, \<open>sent\<close> counts the successful entries and
  \<open>sent + failed = total\<close>, \<open>results\<close> has one entry per recipient, in their order
  and with their phone, whatever happened to the recipients before; and a recipient with
  a phone and a message whose phone does not normalize has a failed entry whose error
  is "Invalid phone number format: " followed by that phone.
\<close>

theorem dispatch_report:
  assumes "dict_get data ''recipients'' (JArr []) = Inr (JArr rs)" and "rs \<noteq> []"
    and "list_all is_object rs"
    and "twilio_client env = Some create"
    and "TWILIO_WHATSAPP_FROM env = Some sender" and "sender \<noteq> []"
  shows "\<exists>sent failed results.
           send_whatsapp env (Inr (Some data)) = Wa200 (int (length rs)) sent failed results \<and>
           sent + failed = int (length rs) \<and> 0 \<le> sent \<and> 0 \<le> failed \<and>
           sent = int (length (filter res_success results)) \<and>
           length results = length rs \<and>
           (\<forall>i<length rs. \<forall>phone message.
              dict_get (rs ! i) ''phone'' JNull = Inr phone \<and>
              dict_get (rs ! i) ''message'' JNull = Inr message \<longrightarrow>
              res_phone (results ! i) = phone \<and>
              (truthy phone \<and> truthy message \<and>
               format_phone_number (phone_lib env) (str_of env phone) ''US'' = None \<longrightarrow>
               \<not> res_success (results ! i) \<and>
               res_error (results ! i) =
                 Some (''Invalid phone number format: '' @ str_of env phone)))"
proof -
  from assms(1,2) have tr: "truthy data"
    by (auto simp: dict_get_def truthy_def split: json.splits)
  from dispatch_all_objects [OF assms(3)] obtain results where
    all: "dispatch_all env create sender 0 rs = Inr results"
    by blast
  from dispatch_all_Inr [OF all] have len: "length results = length rs" and
    nth: "\<And>i. i < length rs \<Longrightarrow>
            \<exists>kvs c. rs ! i = JObj kvs \<and> results ! i = fst (dispatch_one env create sender c kvs)"
    by auto
  let ?sent = "int (length (filter res_success results))"
  have resp: "send_whatsapp env (Inr (Some data)) =
                Wa200 (int (length rs)) ?sent (int (length rs) - ?sent) results"
    using assms tr all
    by (simp add: send_whatsapp_def py_len_def py_iter_def Let_def)
       (simp add: truthy_def)
  have bound: "?sent \<le> int (length rs)"
    using len length_filter_le [of res_success results] by simp
  have rows: "res_phone (results ! i) = phone \<and>
              (truthy phone \<and> truthy message \<and>
               format_phone_number (phone_lib env) (str_of env phone) ''US'' = None \<longrightarrow>
               \<not> res_success (results ! i) \<and>
               res_error (results ! i) =
                 Some (''Invalid phone number format: '' @ str_of env phone))"
    if i: "i < length rs" and ph: "dict_get (rs ! i) ''phone'' JNull = Inr phone"
      and ms: "dict_get (rs ! i) ''message'' JNull = Inr message" for i phone message
  proof -
    from nth [OF i] obtain kvs c where
      r: "rs ! i = JObj kvs" and e: "results ! i = fst (dispatch_one env create sender c kvs)"
      by blast
    from r ph ms have p: "phone = (case map_of kvs ''phone'' of None \<Rightarrow> JNull | Some v \<Rightarrow> v)"
      and m: "message = (case map_of kvs ''message'' of None \<Rightarrow> JNull | Some v \<Rightarrow> v)"
      by (simp_all add: dict_get_def)
    show ?thesis
      using dispatch_one_phone [of env create sender c kvs]
        dispatch_one_invalid [of kvs env create sender c]
      by (auto simp: e p m failure_def)
  qed
  from resp bound len rows show ?thesis
    by (intro exI [of _ ?sent] exI [of _ "int (length rs) - ?sent"] exI [of _ results])
       simp
qed


lemma demo_format_plus:
  "format_phone_number demo_phonelib ''+14155552671'' ''US'' = Some ''+14155552671''"
  by (simp add: format_phone_number_def clean_phone_def strip_def is_space_def
      demo_try_parse)

lemma demo_format_short:
  "format_phone_number demo_phonelib ''12345'' ''US'' = None"
  by (simp add: format_phone_number_def clean_phone_def strip_def is_space_def
      demo_try_parse fallback_regions_def)

lemma demo_format_bare:
  "format_phone_number demo_phonelib ''9876543210'' ''US'' = Some ''+919876543210''"
  by (simp add: format_phone_number_def clean_phone_def strip_def is_space_def is_digit_def
      py_isdigit_def demo_try_parse)

lemma demo_dispatch_fields:
  "twilio_client demo_dispatch =
     Some (\<lambda>calls body sender recipient.
             Inr \<lparr>sid = ''SM'' @ replicate calls CHR ''1'', message_status = ''queued''\<rparr>)"
  "TWILIO_WHATSAPP_FROM demo_dispatch = Some ''whatsapp:+14155238886''"
  "phone_lib demo_dispatch = demo_phonelib"
  by (simp_all add: demo_dispatch_def)

lemma demo_send:
  "send_whatsapp demo_dispatch (Inr (Some (JObj [(''recipients'', JArr demo_recipients)]))) =
     Wa200 3 2 1
       [\<lparr>res_phone = JStr ''+14155552671'', res_formatted_phone = Some ''+14155552671'',
         res_customer_name = JStr ''Customer'', res_success = True, res_error = None,
         res_error_type = None, res_message_id = Some ''SM'',
         res_status = Some ''queued''\<rparr>,
        \<lparr>res_phone = JStr ''12345'', res_formatted_phone = None,
         res_customer_name = JStr ''Asha'', res_success = False,
         res_error = Some ''Invalid phone number format: 12345'', res_error_type = None,
         res_message_id = None, res_status = None\<rparr>,
        \<lparr>res_phone = JStr ''9876543210'', res_formatted_phone = Some ''+919876543210'',
         res_customer_name = JStr ''Customer'', res_success = True, res_error = None,
         res_error_type = None, res_message_id = Some ''SM1'',
         res_status = Some ''queued''\<rparr>]"
  by (simp add: send_whatsapp_def truthy_def dict_get_def py_len_def py_iter_def
      demo_recipients_def demo_dispatch_fields dispatch_one_def str_of_def sliceable_def
      demo_format_plus demo_format_short demo_format_bare failure_def)

theorem dispatch_report_witness:
  "send_whatsapp demo_dispatch (Inr (Some (JObj [(''recipients'', JArr demo_recipients)]))) =
     Wa200 3 2 1
       [\<lparr>res_phone = JStr ''+14155552671'', res_formatted_phone = Some ''+14155552671'',
         res_customer_name = JStr ''Customer'', res_success = True, res_error = None,
         res_error_type = None, res_message_id = Some ''SM'',
         res_status = Some ''queued''\<rparr>,
        \<lparr>res_phone = JStr ''12345'', res_formatted_phone = None,
         res_customer_name = JStr ''Asha'', res_success = False,
         res_error = Some ''Invalid phone number format: 12345'', res_error_type = None,
         res_message_id = None, res_status = None\<rparr>,
        \<lparr>res_phone = JStr ''9876543210'', res_formatted_phone = Some ''+919876543210'',
         res_customer_name = JStr ''Customer'', res_success = True, res_error = None,
         res_error_type = None, res_message_id = Some ''SM1'',
         res_status = Some ''queued''\<rparr>] \<and>
   length demo_recipients = 3 \<and> list_all is_object demo_recipients \<and>
   format_phone_number (phone_lib demo_dispatch) ''12345'' ''US'' = None"
proof -
  have a: "dict_get (JObj [(''recipients'', JArr demo_recipients)]) ''recipients'' (JArr []) =
             Inr (JArr demo_recipients)"
    by (simp add: dict_get_def)
  have b: "demo_recipients \<noteq> []" "list_all is_object demo_recipients"
    "length demo_recipients = 3"
    by (simp_all add: demo_recipients_def is_object_def)
  have c: "''whatsapp:+14155238886'' \<noteq> []" by simp
  from dispatch_report [OF a b(1,2) demo_dispatch_fields(1,2) c]
  show ?thesis
    using demo_send b demo_format_short by (simp add: demo_dispatch_fields)
qed

text \<open>
  The claim as the spec states it fails for the empty list of recipients: the guard of
  line 644 answers it with a 400 that has no tally.
\<close>

theorem dispatch_empty_list_counterexample:
  "send_whatsapp demo_dispatch (Inr (Some (JObj [(''recipients'', JArr [])]))) =
     Wa400 ''No recipients provided''"
  by (simp add: send_whatsapp_def truthy_def dict_get_def)

subsection \<open>Repository statistics: the estimate of the commit count\<close>

text \<open>
  C8. Given the first response to the listing of the commits (one per page): a 204
  counts as no commit; without a link header the estimate is the number of items of
  that page; and when the header has a part with \<^verbatim>\<open>rel="last"\<close>, the estimate is
  \<open>(last_page - 1) * per_page\<close>, both read with \<^verbatim>\<open>int\<close> from the query of that link,
  plus the number of items of the page the link leads to. When \<^verbatim>\<open>int\<close> refuses one of
  the two, there is no estimate: the function raises before it asks for the last page.
\<close>

theorem commit_count_estimate:
  assumes "get fuel session n (GITHUB_API @ ''/repos/'' @ owner @ ''/'' @ repo @ ''/commits'')
             [(''sha'', branch), (''per_page'', ''1'')] = Some (n1, Inr resp)"
  shows "(status_code resp = 204 \<longrightarrow>
            estimate_commit_count parse_query fuel session n owner repo branch =
              Some (n1, Inr 0)) \<and>
         (status_code resp \<noteq> 204 \<and> headers resp ''link'' = None \<and>
          body_json resp = Inr (JArr items) \<longrightarrow>
            estimate_commit_count parse_query fuel session n owner repo branch =
              Some (n1, Inr (int (length items)))) \<and>
         (status_code resp \<noteq> 204 \<and> headers resp ''link'' = Some link \<and>
          find (contains rel_last) (split_on CHR '','' link) = Some part \<and>
          query_int (parse_query (link_target part)) ''page'' ''1'' = Inr last_page \<and>
          query_int (parse_query (link_target part)) ''per_page'' ''30'' = Inr per_page \<and>
          get fuel session n1 (link_target part) [] = Some (n2, Inr last_page_resp) \<and>
          body_json last_page_resp = Inr (JArr last_page_items) \<longrightarrow>
            estimate_commit_count parse_query fuel session n owner repo branch =
              Some (n2, Inr ((last_page - 1) * per_page + int (length last_page_items)))) \<and>
         (status_code resp \<noteq> 204 \<and> headers resp ''link'' = Some link \<and>
          find (contains rel_last) (split_on CHR '','' link) = Some part \<and>
          (query_int (parse_query (link_target part)) ''page'' ''1'' = Inl e \<or>
           query_int (parse_query (link_target part)) ''page'' ''1'' = Inr last_page \<and>
           query_int (parse_query (link_target part)) ''per_page'' ''30'' = Inl e) \<longrightarrow>
            estimate_commit_count parse_query fuel session n owner repo branch =
              Some (n1, Inl e))"
  using assms
  by (auto simp: estimate_commit_count_def count_items_def py_len_def Let_def)

lemma rel_last_text: "rel_last = [CHR ''r'', CHR ''e'', CHR ''l'', CHR ''='', CHR 0x22,
    CHR ''l'', CHR ''a'', CHR ''s'', CHR ''t'', CHR 0x22]"
  by (simp add: rel_last_def)

lemma demo_find_last:
  "find (contains rel_last) (split_on CHR '','' demo_link) = Some demo_last_part"
  by (simp add: demo_link_def demo_last_part_def rel_last_text)

lemma demo_link_target: "link_target demo_last_part = demo_last_url"
  by (simp add: link_target_def py_slice_def demo_last_part_def demo_last_url_def Let_def)

lemma demo_query:
  "query_int (demo_parse_query demo_last_url) ''page'' ''1'' = Inr 57"
  "query_int (demo_parse_query demo_last_url) ''per_page'' ''30'' = Inr 1"
  by (simp_all add: query_int_def demo_parse_query_def demo_last_url_def int_of_string_def
      literal_defs)

lemma odd_find_last:
  "find (contains rel_last) (split_on CHR '','' odd_last_part) = Some odd_last_part"
  by (simp add: odd_last_part_def rel_last_text)

lemma odd_link_target: "link_target odd_last_part = odd_last_url"
  by (simp add: link_target_def py_slice_def odd_last_part_def odd_last_url_def Let_def)

lemma odd_query:
  "query_int (odd_parse_query odd_last_url) ''page'' ''1'' = Inl ValueError"
  by (simp add: query_int_def odd_parse_query_def int_of_string_def literal_defs)

lemma paged_first:
  "get 1 paged_session 0 url params =
     Some (1, Inr \<lparr>status_code = 200, headers = [''link'' \<mapsto> demo_link],
                   body_json = Inr (JArr [JObj [(''sha'', JStr ''a1'')]])\<rparr>)"
  by (simp add: paged_session_def)

lemma paged_last:
  "get 1 paged_session 1 url params =
     Some (2, Inr \<lparr>status_code = 200, headers = Map.empty,
                   body_json = Inr (JArr [JObj [(''sha'', JStr ''f9'')]])\<rparr>)"
  by (simp add: paged_session_def)

lemma single_first:
  "get 1 single_page_session 0 url params =
     Some (1, Inr \<lparr>status_code = 200, headers = Map.empty,
                   body_json = Inr (JArr [JObj [(''sha'', JStr ''a1'')],
                                          JObj [(''sha'', JStr ''b2'')],
                                          JObj [(''sha'', JStr ''c3'')]])\<rparr>)"
  by (simp add: single_page_session_def)

lemma odd_first:
  "get 1 odd_session 0 url params =
     Some (1, Inr \<lparr>status_code = 200, headers = [''link'' \<mapsto> odd_last_part],
                   body_json = Inr (JArr [JObj [(''sha'', JStr ''a1'')]])\<rparr>)"
  by (simp add: odd_session_def)

theorem commit_count_estimate_witness:
  "estimate_commit_count demo_parse_query 1 single_page_session 0 ''o'' ''r'' ''main'' =
     Some (1, Inr 3) \<and>
   estimate_commit_count demo_parse_query 1 paged_session 0 ''o'' ''r'' ''main'' =
     Some (2, Inr 57) \<and>
   estimate_commit_count odd_parse_query 1 odd_session 0 ''o'' ''r'' ''main'' =
     Some (1, Inl ValueError)"
proof -
  have "estimate_commit_count demo_parse_query 1 single_page_session 0 ''o'' ''r'' ''main'' =
          Some (1, Inr 3)"
    using commit_count_estimate [where parse_query = demo_parse_query
        and items = "[JObj [(''sha'', JStr ''a1'')], JObj [(''sha'', JStr ''b2'')],
          JObj [(''sha'', JStr ''c3'')]]", OF single_first]
    by simp
  moreover
  let ?first = "\<lparr>status_code = 200, headers = [''link'' \<mapsto> demo_link],
                  body_json = Inr (JArr [JObj [(''sha'', JStr ''a1'')]])\<rparr>"
  let ?last = "\<lparr>status_code = 200, headers = Map.empty,
                 body_json = Inr (JArr [JObj [(''sha'', JStr ''f9'')]])\<rparr>"
  have "status_code ?first \<noteq> 204 \<and> headers ?first ''link'' = Some demo_link \<and>
        find (contains rel_last) (split_on CHR '','' demo_link) = Some demo_last_part \<and>
        query_int (demo_parse_query (link_target demo_last_part)) ''page'' ''1'' = Inr 57 \<and>
        query_int (demo_parse_query (link_target demo_last_part)) ''per_page'' ''30'' = Inr 1 \<and>
        get 1 paged_session 1 (link_target demo_last_part) [] = Some (2, Inr ?last) \<and>
        body_json ?last = Inr (JArr [JObj [(''sha'', JStr ''f9'')]])"
    by (simp only: demo_find_last demo_link_target demo_query paged_last) simp
  then have "estimate_commit_count demo_parse_query 1 paged_session 0 ''o'' ''r'' ''main'' =
          Some (2, Inr ((57 - 1) * 1 + int (length [JObj [(''sha'', JStr ''f9'')]])))"
    by (rule commit_count_estimate [OF paged_first, THEN conjunct2, THEN conjunct2,
          THEN conjunct1, THEN mp])
  then have "estimate_commit_count demo_parse_query 1 paged_session 0 ''o'' ''r'' ''main'' =
          Some (2, Inr 57)"
    by simp
  moreover
  let ?odd = "\<lparr>status_code = 200, headers = [''link'' \<mapsto> odd_last_part],
                body_json = Inr (JArr [JObj [(''sha'', JStr ''a1'')]])\<rparr>"
  have "status_code ?odd \<noteq> 204 \<and> headers ?odd ''link'' = Some odd_last_part \<and>
        find (contains rel_last) (split_on CHR '','' odd_last_part) = Some odd_last_part \<and>
        (query_int (odd_parse_query (link_target odd_last_part)) ''page'' ''1'' =
           Inl ValueError \<or>
         query_int (odd_parse_query (link_target odd_last_part)) ''page'' ''1'' = Inr 0 \<and>
         query_int (odd_parse_query (link_target odd_last_part)) ''per_page'' ''30'' =
           Inl ValueError)"
    by (simp only: odd_find_last odd_link_target odd_query) simp
  then have "estimate_commit_count odd_parse_query 1 odd_session 0 ''o'' ''r'' ''main'' =
          Some (1, Inl ValueError)"
    by (rule commit_count_estimate [OF odd_first, THEN conjunct2, THEN conjunct2,
          THEN conjunct2, THEN mp])
  ultimately show ?thesis by simp
qed

end
